theory Spec2Isabelle
  imports Main
begin

section \<open>The EC2 Image Builder orchestrator (imagebuilder.py)\<close>

text \<open>
  The program is one class, \<open>CreateImagePipeline\<close>, whose method \<open>run\<close> loads a YAML
  pipeline definition and calls one method per resource kind. Everything it does is a
  remote call through a boto3 client, so the embedding is a state-and-exception monad:
  the state holds the list of remote calls made so far and the parsed definition, and a
  Python exception is the result \<open>Inl e\<close>.

  The remote services, the two files the program opens and the clock are outside the
  program. They are the parameter \<open>world\<close>: a response function that sees the calls made
  so far, so the same call can be answered differently the second time.

  Logging writes to standard output through a local handler. It makes no remote call and
  cannot raise, and it is not part of the trace. The arguments of a log call that can
  raise are still evaluated in the model.
\<close>

subsection \<open>Values of the parsed definition\<close>

text \<open>
  What \<open>yaml.safe_load\<close> returns: a tree of mappings, sequences and scalars. A mapping
  keeps the insertion order of its keys, as a Python dict does, and its keys are strings
  and distinct. Scalars are strings or null (numbers and booleans are not represented),
  and no node is shared between two places of the tree (no YAML alias).
\<close>

datatype yaml = YNull | YStr string | YList "yaml list" | YMap "(string \<times> yaml) list"

datatype exn =
    KeyError yaml
  | TypeError
  | AttributeError
  | IndexError
  | ResourceNotFoundException
  | InvalidParameterValueException
  | LimitExceededException
  | OtherError string

text \<open>\<open>d[k]\<close>: only a mapping can be subscripted by a string or by null.\<close>

fun getitem :: "yaml \<Rightarrow> yaml \<Rightarrow> exn + yaml" where
  "getitem (YMap kvs) (YStr k) =
     (case map_of kvs k of None \<Rightarrow> Inl (KeyError (YStr k)) | Some v \<Rightarrow> Inr v)"
| "getitem (YMap kvs) YNull = Inl (KeyError YNull)"
| "getitem d k = Inl TypeError"

text \<open>\<open>d.get(k)\<close>: null when the key is missing; only a mapping has the method.\<close>

fun get :: "yaml \<Rightarrow> string \<Rightarrow> exn + yaml" where
  "get (YMap kvs) k = (case map_of kvs k of None \<Rightarrow> Inr YNull | Some v \<Rightarrow> Inr v)"
| "get d k = Inl AttributeError"

text \<open>\<open>for x in d\<close>: the elements of a sequence, the keys of a mapping, the characters of
  a string.\<close>

fun iter :: "yaml \<Rightarrow> exn + yaml list" where
  "iter (YList xs) = Inr xs"
| "iter (YMap kvs) = Inr (map (\<lambda>kv. YStr (fst kv)) kvs)"
| "iter (YStr s) = Inr (map (\<lambda>c. YStr [c]) s)"
| "iter YNull = Inl TypeError"

text \<open>\<open>d[k] = v\<close> on a dict: an existing key keeps its place, a new key goes last.\<close>

fun assign :: "(string \<times> yaml) list \<Rightarrow> string \<Rightarrow> yaml \<Rightarrow> (string \<times> yaml) list" where
  "assign [] k v = [(k, v)]"
| "assign ((k', v') # kvs) k v = (if k' = k then (k, v) # kvs else (k', v') # assign kvs k v)"

fun setitem :: "yaml \<Rightarrow> string \<Rightarrow> yaml \<Rightarrow> exn + yaml" where
  "setitem (YMap kvs) k v = Inr (YMap (assign kvs k v))"
| "setitem d k v = Inl TypeError"

text \<open>\<open>a + '/1'\<close>: string concatenation; any other left operand raises.\<close>

fun add_str :: "yaml \<Rightarrow> string \<Rightarrow> exn + yaml" where
  "add_str (YStr a) s = Inr (YStr (a @ s))"
| "add_str a s = Inl TypeError"

text \<open>\<open>str(n)\<close> for a non-negative integer, as the f-string \<open>f'0.0.{minor}'\<close> renders it.\<close>

fun str_nat :: "nat \<Rightarrow> string" where
  "str_nat n =
     (if n < 10 then [''0123456789'' ! n]
      else str_nat (n div 10) @ [''0123456789'' ! (n mod 10)])"

declare str_nat.simps [simp del]

text \<open>\<open>s.split(c)\<close> and \<open>sub in s\<close> on strings.\<close>

fun split :: "char \<Rightarrow> string \<Rightarrow> string list" where
  "split c [] = [[]]"
| "split c (x # xs) =
     (if x = c then [] # split c xs
      else (case split c xs of [] \<Rightarrow> [[x]] | y # ys \<Rightarrow> (x # y) # ys))"

fun startswith :: "string \<Rightarrow> string \<Rightarrow> bool" where
  "startswith [] s = True"
| "startswith (a # as) [] = False"
| "startswith (a # as) (c # cs) = (a = c \<and> startswith as cs)"

fun contains :: "string \<Rightarrow> string \<Rightarrow> bool" where
  "contains sub [] = (sub = [])"
| "contains sub (c # cs) = (startswith sub (c # cs) \<or> contains sub cs)"

subsection \<open>Remote calls and the world\<close>

text \<open>The methods of \<open>CreateImagePipeline\<close> that make remote calls.\<close>

datatype meth =
    M_get_session_details
  | M_delete_pipeline_resources
  | M_create_components
  | M_create_image_recipe
  | M_create_instance_profile
  | M_create_infrastructure_config
  | M_create_distribution_configuration
  | M_create_image_pipeline
  | M_start_image_pipeline

text \<open>The body of a component: \<open>data=yaml.safe_dump(d)\<close> or \<open>uri=...\<close>.\<close>

datatype body = Data yaml | Uri string

text \<open>
  One constructor per client operation the program calls, with the arguments that vary.
  A serialised document (\<open>yaml.safe_dump\<close>) is recorded as the value it serialises.
\<close>

datatype api =
    GetCallerIdentity
  | ListAccountAliases
  | ListInstanceProfiles string
  | CreatePolicyVersion string string
  | ListPolicyVersions string
  | DeletePolicyVersion string string
  | CreateInstanceProfile string string
  | CreateRole string string
  | CreatePolicy string string string
  | AttachRolePolicy string string
  | AddRoleToInstanceProfile string string
  | GetComponent yaml
  | ListComponents string
  | CreateComponent string string yaml yaml body
  | PutObject string string yaml
  | ListImageRecipes yaml
  | CreateImageRecipe "(string \<times> yaml) list"
  | ListInfrastructureConfigurations yaml
  | CreateInfrastructureConfiguration yaml
  | DeleteInfrastructureConfiguration string
  | ListDistributionConfigurations yaml
  | CreateDistributionConfiguration yaml
  | DeleteDistributionConfiguration string
  | ListImagePipelines yaml
  | DeleteImagePipeline string
  | CreateImagePipeline yaml string string string
  | StartImagePipelineExecution string

text \<open>
  The part of a response the program reads: the caller's account and ARN, a listing (the
  name, identifier or ARN of each entry), the policy versions with their creation dates,
  or one ARN. \<open>NoContent\<close> is a response with none of these.
\<close>

datatype response =
    Identity string string
  | Listing "string list"
  | Versions "(string \<times> nat) list"
  | Arn string
  | NoContent

text \<open>An event of the trace: a call, with the method that made it.\<close>

type_synonym event = "meth \<times> api"

text \<open>
  The world a run meets. \<open>respond\<close> is what a client call returns or raises, given the
  calls made before it. \<open>load_yaml\<close> is \<open>open\<close> and \<open>yaml.safe_load\<close> on a path;
  \<open>load_json\<close> is \<open>open\<close> and \<open>json.load\<close> on the \<open>file\<close> entry of the profile section,
  rendered again by \<open>json.dumps\<close>; both raise when the file is missing or malformed.
  \<open>now\<close> is the time of day as \<open>datetime.now().time()\<close> prints it. \<open>repr\<close> is Python's
  rendering of a sequence or a mapping, which the program needs only to format a profile
  name that is not a string.

  \<open>yaml.safe_load\<close> builds one object for a YAML anchor and all its aliases. The only
  object of the parsed definition the program ever changes is the mapping under
  \<open>infrastructure-configuration\<close>, so the sharing that matters is described by
  \<open>aliases\<close>: the other places of the document at a path that hold this same object. A
  place is the non-empty path of keys and positions that leads to it from the top of the
  document. (Values are finite trees: a document that contains itself is not
  represented.)
\<close>

datatype step = Key string | Index nat

type_synonym place = "step \<times> step list"

record world =
  respond :: "event list \<Rightarrow> api \<Rightarrow> exn + response"
  load_yaml :: "string \<Rightarrow> exn + yaml"
  load_json :: "yaml \<Rightarrow> exn + string"
  now :: "event list \<Rightarrow> string"
  repr :: "yaml \<Rightarrow> string"
  aliases :: "string \<Rightarrow> place list"

text \<open>
  The command-line options the methods read from \<open>self\<close>. (\<open>debug\<close> only sets the log
  level.)
\<close>

record options =
  pipeline_def :: string
  component_bucket :: "string option"
  start_pipeline :: bool
  update :: bool

text \<open>
  The state of a run: the calls made so far, oldest first, and the object \<open>pipeline_dict\<close>
  (null before the definition is loaded). An action returns a value or raises, and
  leaves a state.
\<close>

record state =
  trace :: "event list"
  pipeline_dict :: yaml

type_synonym 'a act = "state \<Rightarrow> (exn + 'a) \<times> state"

definition return :: "'a \<Rightarrow> 'a act" where
  "return x s = (Inr x, s)"

definition raise :: "exn \<Rightarrow> 'a act" where
  "raise e s = (Inl e, s)"

definition lift :: "exn + 'a \<Rightarrow> 'a act" where
  "lift r s = (r, s)"

definition bind :: "'a act \<Rightarrow> ('a \<Rightarrow> 'b act) \<Rightarrow> 'b act" where
  "bind f g s = (case f s of (Inl e, s') \<Rightarrow> (Inl e, s') | (Inr x, s') \<Rightarrow> g x s')"

text \<open>\<open>try: f except E: h\<close>, for the exceptions \<open>h\<close> handles.\<close>

definition try_except :: "'a act \<Rightarrow> (exn \<Rightarrow> 'a act option) \<Rightarrow> 'a act" where
  "try_except f h s =
     (case f s of
        (Inl e, s') \<Rightarrow> (case h e of None \<Rightarrow> (Inl e, s') | Some g \<Rightarrow> g s')
      | (Inr x, s') \<Rightarrow> (Inr x, s'))"

text \<open>A client call: recorded with the calling method, answered by the world.\<close>

definition call :: "world \<Rightarrow> meth \<Rightarrow> api \<Rightarrow> response act" where
  "call w m a s = (respond w (trace s) a, s\<lparr>trace := trace s @ [(m, a)]\<rparr>)"

text \<open>Reading a key of a response; a response without the key raises \<open>KeyError\<close>.\<close>

fun identity :: "response \<Rightarrow> exn + string \<times> string" where
  "identity (Identity account arn) = Inr (account, arn)"
| "identity r = Inl (KeyError (YStr ''Account''))"

fun listing :: "string \<Rightarrow> response \<Rightarrow> exn + string list" where
  "listing key (Listing xs) = Inr xs"
| "listing key r = Inl (KeyError (YStr key))"

fun versions :: "response \<Rightarrow> exn + (string \<times> nat) list" where
  "versions (Versions vs) = Inr vs"
| "versions r = Inl (KeyError (YStr ''Versions''))"

fun arn :: "string \<Rightarrow> response \<Rightarrow> exn + string" where
  "arn key (Arn a) = Inr a"
| "arn key r = Inl (KeyError (YStr key))"

text \<open>\<open>xs[0]\<close>, \<open>xs[1]\<close> and \<open>xs[-1]\<close>.\<close>

fun index0 :: "'a list \<Rightarrow> exn + 'a" where
  "index0 [] = Inl IndexError"
| "index0 (x # xs) = Inr x"

fun index1 :: "'a list \<Rightarrow> exn + 'a" where
  "index1 (x # y # xs) = Inr y"
| "index1 xs = Inl IndexError"

fun index_last :: "'a list \<Rightarrow> exn + 'a" where
  "index_last [] = Inl IndexError"
| "index_last (x # xs) = Inr (last (x # xs))"

text \<open>\<open>'{}'.format(v)\<close>: a string as it is, \<open>None\<close> for null, the \<open>repr\<close> otherwise.\<close>

fun format :: "world \<Rightarrow> yaml \<Rightarrow> string" where
  "format w (YStr s) = s"
| "format w YNull = ''None''"
| "format w v = repr w v"

text \<open>\<open>datetime.now().time()\<close>, rendered; the clock is read from the world.\<close>

definition clock :: "world \<Rightarrow> string act" where
  "clock w s = (Inr (now w (trace s)), s)"

text \<open>
  The name \<open>pipeline_dict\<close> of \<open>run\<close>: the parsed definition, and \<open>pipeline_dict[k]\<close>.
\<close>

definition load :: "yaml \<Rightarrow> unit act" where
  "load d s = (Inr (), s\<lparr>pipeline_dict := d\<rparr>)"

definition loaded :: "yaml act" where
  "loaded s = (Inr (pipeline_dict s), s)"

definition item :: "string \<Rightarrow> yaml act" where
  "item k s = (getitem (pipeline_dict s) (YStr k), s)"

subsection \<open>The methods\<close>

text \<open>\<open>get_session_details\<close>: the caller's identity and the account aliases.\<close>

definition get_session_details :: "world \<Rightarrow> response act" where
  "get_session_details w =
     bind (call w M_get_session_details GetCallerIdentity) (\<lambda>caller_id.
     bind (call w M_get_session_details ListAccountAliases) (\<lambda>account_alias.
     return caller_id))"

text \<open>
  \<open>create_instance_profile\<close>. The policy file is opened and parsed before the first
  remote call; \<open>policy\<close> is \<open>json.dumps(policy_dict)\<close>.
\<close>

definition create_instance_profile :: "world \<Rightarrow> options \<Rightarrow> yaml \<Rightarrow> string \<Rightarrow> string act" where
  "create_instance_profile w self profile_dict account_id =
     bind (lift (getitem profile_dict (YStr ''name''))) (\<lambda>name.
     let resource_name = ''imagebuilder-'' @ format w name;
         policy_arn = ''arn:aws:iam::'' @ account_id @ '':policy/imagebuilder/'' @ resource_name
     in
     bind (lift (getitem profile_dict (YStr ''file''))) (\<lambda>file.
     bind (lift (load_json w file)) (\<lambda>policy.
     bind (call w M_create_instance_profile (ListInstanceProfiles ''/imagebuilder/'')) (\<lambda>response.
     bind (lift (listing ''InstanceProfiles'' response)) (\<lambda>profiles.
     if length (filter (contains ''ec2-image-builder-default'') profiles) > 0 then
       if update self then
         bind (try_except
                 (call w M_create_instance_profile (CreatePolicyVersion policy_arn policy))
                 (\<lambda>e. if e = LimitExceededException then Some (
                    bind (call w M_create_instance_profile (ListPolicyVersions policy_arn)) (\<lambda>response.
                    bind (lift (versions response)) (\<lambda>vs.
                    bind (lift (index_last vs)) (\<lambda>v.
                    bind (call w M_create_instance_profile (DeletePolicyVersion policy_arn (fst v))) (\<lambda>deleted.
                    call w M_create_instance_profile (CreatePolicyVersion policy_arn policy))))))
                  else None))
              (\<lambda>created. return resource_name)
       else return resource_name
     else
       bind (call w M_create_instance_profile (CreateInstanceProfile resource_name ''/imagebuilder/'')) (\<lambda>r1.
       bind (call w M_create_instance_profile (CreateRole ''/imagebuilder/'' resource_name)) (\<lambda>r2.
       bind (call w M_create_instance_profile (CreatePolicy resource_name ''/imagebuilder/'' policy)) (\<lambda>response.
       bind (lift (arn ''Policy'' response)) (\<lambda>created_arn.
       bind (call w M_create_instance_profile (AttachRolePolicy resource_name created_arn)) (\<lambda>r3.
       bind (call w M_create_instance_profile (AddRoleToInstanceProfile resource_name resource_name)) (\<lambda>r4.
       return resource_name)))))))))))"

text \<open>
  The body of the loop of \<open>create_components\<close>, for one \<open>component\<close> and the list built
  so far. \<open>component_name\<close> is what \<open>for key in component: component_name = key\<close>
  leaves: the last key of the component (\<open>last_key\<close>; the empty string when it has
  none). \<open>document\<close> is \<open>component[component_name]\<close>. A component that is not a mapping
  raises \<open>TypeError\<close> before any call: null cannot be iterated, and a string or a
  sequence cannot be subscripted by what the iteration leaves in \<open>component_name\<close>.
\<close>

definition last_key :: "(string \<times> yaml) list \<Rightarrow> string" where
  "last_key kvs = foldl (\<lambda>component_name key. key) [] (map fst kvs)"

fun resolve :: "world \<Rightarrow> options \<Rightarrow> yaml \<Rightarrow> yaml list \<Rightarrow> yaml \<Rightarrow> yaml list act" where
  "resolve w self platform component_list (YMap kvs) =
     (let component_name = last_key kvs in
      bind (lift (getitem (YMap kvs) (YStr component_name))) (\<lambda>document.
      bind (lift (get document ''arn'')) (\<lambda>a.
      if a \<noteq> YNull then
        try_except
          (bind (call w M_create_components (GetComponent a)) (\<lambda>found.
           return (component_list @ [YMap [(''componentArn'', a)]])))
          (\<lambda>e. if e = ResourceNotFoundException then Some (return component_list)
                else if e = InvalidParameterValueException then Some (
                  bind (lift (add_str a ''/1'')) (\<lambda>a1.
                  bind (call w M_create_components (GetComponent a1)) (\<lambda>found.
                  return (component_list @ [YMap [(''componentArn'', a1)]]))))
                else None)
      else
        bind (call w M_create_components (ListComponents component_name)) (\<lambda>response.
        bind (lift (listing ''componentVersionList'' response)) (\<lambda>componentVersionList.
        let minor = 1 + length componentVersionList;
            version = ''0.0.'' @ str_nat minor
        in
        bind (case component_bucket self of
                None \<Rightarrow>
                  bind (lift (getitem document (YStr ''description''))) (\<lambda>description.
                  call w M_create_components
                    (CreateComponent component_name version description platform (Data document)))
              | Some bucket \<Rightarrow>
                  bind (clock w) (\<lambda>time.
                  let key_name = ''imagebuilder/'' @ component_name @ ''_'' @ time @ ''.yaml'' in
                  bind (call w M_create_components (PutObject bucket key_name document)) (\<lambda>put.
                  bind (lift (getitem document (YStr ''description''))) (\<lambda>description.
                  call w M_create_components
                    (CreateComponent component_name version description platform
                       (Uri (''s3://'' @ bucket @ ''/'' @ key_name)))))))
          (\<lambda>response.
        bind (lift (arn ''componentBuildVersionArn'' response)) (\<lambda>created.
        return (component_list @ [YMap [(''componentArn'', YStr created)]]))))))))"
| "resolve w self platform component_list component = raise TypeError"

fun resolve_all :: "world \<Rightarrow> options \<Rightarrow> yaml \<Rightarrow> yaml list \<Rightarrow> yaml list \<Rightarrow> yaml list act" where
  "resolve_all w self platform [] component_list = return component_list"
| "resolve_all w self platform (component # rest) component_list =
     bind (resolve w self platform component_list component)
       (\<lambda>component_list'. resolve_all w self platform rest component_list')"

definition create_components :: "world \<Rightarrow> options \<Rightarrow> yaml \<Rightarrow> yaml \<Rightarrow> yaml list act" where
  "create_components w self platform component_def =
     bind (lift (iter component_def)) (\<lambda>components.
     resolve_all w self platform components [])"

definition create_image_recipe :: "world \<Rightarrow> yaml list \<Rightarrow> yaml \<Rightarrow> string act" where
  "create_image_recipe w component_arns recipe_def =
     bind (lift (getitem recipe_def (YStr ''name''))) (\<lambda>name.
     bind (call w M_create_image_recipe (ListImageRecipes name)) (\<lambda>response.
     bind (lift (listing ''imageRecipeSummaryList'' response)) (\<lambda>imageRecipeSummaryList.
     let minor = 1 + length imageRecipeSummaryList;
         version = ''0.0.'' @ str_nat minor
     in
     bind (lift (getitem recipe_def (YStr ''description''))) (\<lambda>description.
     bind (lift (getitem recipe_def (YStr ''parentImage''))) (\<lambda>parentImage.
     bind (lift (get recipe_def ''blockDeviceMappings'')) (\<lambda>blockDeviceMappings.
     bind (lift (get recipe_def ''tags'')) (\<lambda>tags.
     let recipe_dict =
           [(''name'', name), (''description'', description),
            (''components'', YList component_arns), (''semanticVersion'', YStr version),
            (''parentImage'', parentImage)];
         recipe_dict =
           (if blockDeviceMappings \<noteq> YNull
            then assign recipe_dict ''blockDeviceMappings'' blockDeviceMappings else recipe_dict);
         recipe_dict = (if tags \<noteq> YNull then assign recipe_dict ''tags'' tags else recipe_dict)
     in
     bind (call w M_create_image_recipe (CreateImageRecipe recipe_dict)) (\<lambda>response.
     lift (arn ''imageRecipeArn'' response)))))))))"

text \<open>
  \<open>create_infrastructure_config\<close>. Its argument \<open>infrastructure_def\<close> is the object
  \<open>pipeline_dict['infrastructure-configuration']\<close> itself, so the assignment
  \<open>infrastructure_def['instanceProfileName'] = instance_profile\<close> changes the parsed
  definition in place, at every place that holds this object: under the key
  \<open>infrastructure-configuration\<close> and at each of its aliases (\<open>infra_places\<close>).
  \<open>set_at p v d\<close> is \<open>d\<close> with \<open>v\<close> at the path \<open>p\<close> (and \<open>d\<close> itself when the path does
  not exist); \<open>store\<close> puts the changed mapping at each of the places.
\<close>

fun set_at :: "step list \<Rightarrow> yaml \<Rightarrow> yaml \<Rightarrow> yaml" where
  "set_at [] v d = v"
| "set_at (Key k # p) v (YMap kvs) =
     YMap (map (\<lambda>kv. if fst kv = k then (k, set_at p v (snd kv)) else kv) kvs)"
| "set_at (Index i # p) v (YList xs) =
     YList (if i < length xs then xs[i := set_at p v (xs ! i)] else xs)"
| "set_at p v d = d"

definition set_all :: "place list \<Rightarrow> yaml \<Rightarrow> yaml \<Rightarrow> yaml" where
  "set_all places v d = foldl (\<lambda>d' place. set_at (fst place # snd place) v d') d places"

definition infra_places :: "world \<Rightarrow> options \<Rightarrow> place list" where
  "infra_places w self = (Key ''infrastructure-configuration'', []) # aliases w (pipeline_def self)"

definition store :: "place list \<Rightarrow> yaml \<Rightarrow> unit act" where
  "store places d s = (Inr (), s\<lparr>pipeline_dict := set_all places d (pipeline_dict s)\<rparr>)"

definition create_infrastructure_config :: "world \<Rightarrow> options \<Rightarrow> yaml \<Rightarrow> yaml \<Rightarrow> string act" where
  "create_infrastructure_config w self instance_profile infrastructure_def =
     bind (lift (getitem infrastructure_def (YStr ''name''))) (\<lambda>name.
     bind (call w M_create_infrastructure_config (ListInfrastructureConfigurations name)) (\<lambda>response.
     bind (lift (listing ''infrastructureConfigurationSummaryList'' response)) (\<lambda>summaries.
     if length summaries > 0 then lift (index0 summaries)
     else
       bind (lift (setitem infrastructure_def ''instanceProfileName'' instance_profile)) (\<lambda>infrastructure_def'.
       bind (store (infra_places w self) infrastructure_def') (\<lambda>stored.
       bind (call w M_create_infrastructure_config
               (CreateInfrastructureConfiguration infrastructure_def')) (\<lambda>response.
       lift (arn ''infrastructureConfigurationArn'' response)))))))"

definition create_distribution_configuration :: "world \<Rightarrow> yaml \<Rightarrow> string act" where
  "create_distribution_configuration w distribution_def =
     bind (lift (getitem distribution_def (YStr ''name''))) (\<lambda>name.
     bind (call w M_create_distribution_configuration (ListDistributionConfigurations name)) (\<lambda>response.
     bind (lift (listing ''distributionConfigurationSummaryList'' response)) (\<lambda>summaries.
     if length summaries > 0 then lift (index0 summaries)
     else
       bind (call w M_create_distribution_configuration
               (CreateDistributionConfiguration distribution_def)) (\<lambda>response.
       lift (arn ''distributionConfigurationArn'' response)))))"

definition create_image_pipeline :: "world \<Rightarrow> yaml \<Rightarrow> string \<Rightarrow> string \<Rightarrow> string \<Rightarrow> string act" where
  "create_image_pipeline w pipeline_name image_recipe_arn infrastructure_arn distribution_arn =
     bind (call w M_create_image_pipeline (ListImagePipelines pipeline_name)) (\<lambda>response.
     bind (lift (listing ''imagePipelineList'' response)) (\<lambda>imagePipelineList.
     bind (if length imagePipelineList > 0 then
             bind (lift (index0 imagePipelineList)) (\<lambda>existing.
             bind (call w M_create_image_pipeline (DeleteImagePipeline existing)) (\<lambda>deleted.
             return ()))
           else return ()) (\<lambda>u.
     bind (call w M_create_image_pipeline
             (CreateImagePipeline pipeline_name image_recipe_arn infrastructure_arn distribution_arn)) (\<lambda>response.
     lift (arn ''imagePipelineArn'' response)))))"

definition start_image_pipeline :: "world \<Rightarrow> string \<Rightarrow> string act" where
  "start_image_pipeline w pipeline_arn =
     bind (call w M_start_image_pipeline (StartImagePipelineExecution pipeline_arn)) (\<lambda>response.
     lift (arn ''imageBuildVersionArn'' response))"

definition delete_pipeline_resources :: "world \<Rightarrow> options \<Rightarrow> yaml \<Rightarrow> unit act" where
  "delete_pipeline_resources w self pipeline_def' =
     bind (lift (getitem pipeline_def' (YStr ''pipeline-name''))) (\<lambda>pipeline_name.
     bind (call w M_delete_pipeline_resources (ListImagePipelines pipeline_name)) (\<lambda>response.
     bind (lift (listing ''imagePipelineList'' response)) (\<lambda>imagePipelineList.
     bind (if length imagePipelineList > 0 then
             bind (lift (index0 imagePipelineList)) (\<lambda>existing.
             bind (call w M_delete_pipeline_resources (DeleteImagePipeline existing)) (\<lambda>deleted.
             return ()))
           else return ()) (\<lambda>u1.
     bind (lift (getitem pipeline_def' (YStr ''infrastructure-configuration''))) (\<lambda>infrastructure_def.
     bind (lift (getitem infrastructure_def (YStr ''name''))) (\<lambda>infrastructure_name.
     bind (call w M_delete_pipeline_resources
             (ListInfrastructureConfigurations infrastructure_name)) (\<lambda>response.
     bind (lift (listing ''infrastructureConfigurationSummaryList'' response)) (\<lambda>infrastructures.
     bind (if length infrastructures > 0 \<and> update self then
             bind (lift (index0 infrastructures)) (\<lambda>existing.
             bind (call w M_delete_pipeline_resources (DeleteInfrastructureConfiguration existing)) (\<lambda>deleted.
             return ()))
           else return ()) (\<lambda>u2.
     bind (lift (getitem pipeline_def' (YStr ''distribution-configuration''))) (\<lambda>distribution_def.
     bind (lift (getitem distribution_def (YStr ''name''))) (\<lambda>distribution_name.
     bind (call w M_delete_pipeline_resources
             (ListDistributionConfigurations distribution_name)) (\<lambda>response.
     bind (lift (listing ''distributionConfigurationSummaryList'' response)) (\<lambda>distributions.
     if length distributions > 0 \<and> update self then
       bind (lift (index0 distributions)) (\<lambda>existing.
       bind (call w M_delete_pipeline_resources (DeleteDistributionConfiguration existing)) (\<lambda>deleted.
       return ()))
     else return ())))))))))))))"

text \<open>
  \<open>run\<close>. The account and the user are read from the caller's identity for the first
  log line, before the definition is opened; the user is the part of the ARN after its
  first \<open>/\<close>.
\<close>

definition run :: "world \<Rightarrow> options \<Rightarrow> unit act" where
  "run w self =
     bind (get_session_details w) (\<lambda>caller_id.
     bind (lift (identity caller_id)) (\<lambda>(account_id, caller_arn).
     bind (lift (index1 (split CHR ''/'' caller_arn))) (\<lambda>user.
     bind (lift (load_yaml w (pipeline_def self))) (\<lambda>parsed.
     bind (load parsed) (\<lambda>u0.
     bind (if update self then bind loaded (delete_pipeline_resources w self) else return ()) (\<lambda>u1.
     bind (item ''platform'') (\<lambda>platform.
     bind (item ''components'') (\<lambda>component_def.
     bind (create_components w self platform component_def) (\<lambda>component_list.
     bind (item ''image-recipe'') (\<lambda>recipe_def.
     bind (create_image_recipe w component_list recipe_def) (\<lambda>recipe_arn.
     bind (item ''instance-profile'') (\<lambda>profile_dict.
     bind (lift (get profile_dict ''file'')) (\<lambda>file.
     bind (if file \<noteq> YNull then
             bind (item ''instance-profile'') (\<lambda>profile_dict.
             bind (create_instance_profile w self profile_dict account_id) (\<lambda>resource_name.
             return (YStr resource_name)))
           else
             bind (item ''instance-profile'') (\<lambda>profile_dict.
             lift (get profile_dict ''name''))) (\<lambda>instance_profile_name.
     bind (item ''infrastructure-configuration'') (\<lambda>infrastructure_def.
     bind (create_infrastructure_config w self instance_profile_name infrastructure_def) (\<lambda>infrastructure_arn.
     bind (item ''distribution-configuration'') (\<lambda>distribution_def.
     bind (create_distribution_configuration w distribution_def) (\<lambda>distribution_arn.
     bind (item ''pipeline-name'') (\<lambda>pipeline_name.
     bind (create_image_pipeline w pipeline_name recipe_arn infrastructure_arn distribution_arn) (\<lambda>pipeline_arn.
     if start_pipeline self then
       bind (start_image_pipeline w pipeline_arn) (\<lambda>image_arn. return ())
     else return ()))))))))))))))))))))"

text \<open>The state \<open>run\<close> starts in: no call made, nothing parsed.\<close>

definition start :: state where
  "start = \<lparr>trace = [], pipeline_dict = YNull\<rparr>"

section \<open>Reasoning about the methods\<close>

subsection \<open>Which operations a method calls\<close>

fun calls :: "meth \<Rightarrow> api \<Rightarrow> bool" where
  "calls M_get_session_details a = (a = GetCallerIdentity \<or> a = ListAccountAliases)"
| "calls M_delete_pipeline_resources a =
     (case a of ListImagePipelines n \<Rightarrow> True | DeleteImagePipeline x \<Rightarrow> True
      | ListInfrastructureConfigurations n \<Rightarrow> True | DeleteInfrastructureConfiguration x \<Rightarrow> True
      | ListDistributionConfigurations n \<Rightarrow> True | DeleteDistributionConfiguration x \<Rightarrow> True
      | _ \<Rightarrow> False)"
| "calls M_create_components a =
     (case a of GetComponent x \<Rightarrow> True | ListComponents n \<Rightarrow> True
      | CreateComponent n v d p b \<Rightarrow> True | PutObject b k d \<Rightarrow> True | _ \<Rightarrow> False)"
| "calls M_create_image_recipe a =
     (case a of ListImageRecipes n \<Rightarrow> True | CreateImageRecipe kw \<Rightarrow> True | _ \<Rightarrow> False)"
| "calls M_create_instance_profile a =
     (case a of ListInstanceProfiles p \<Rightarrow> True | CreatePolicyVersion p d \<Rightarrow> True
      | ListPolicyVersions p \<Rightarrow> True | DeletePolicyVersion p v \<Rightarrow> True
      | CreateInstanceProfile n p \<Rightarrow> True | CreateRole p n \<Rightarrow> True | CreatePolicy n p d \<Rightarrow> True
      | AttachRolePolicy r p \<Rightarrow> True | AddRoleToInstanceProfile p r \<Rightarrow> True | _ \<Rightarrow> False)"
| "calls M_create_infrastructure_config a =
     (case a of ListInfrastructureConfigurations n \<Rightarrow> True
      | CreateInfrastructureConfiguration d \<Rightarrow> True | _ \<Rightarrow> False)"
| "calls M_create_distribution_configuration a =
     (case a of ListDistributionConfigurations n \<Rightarrow> True
      | CreateDistributionConfiguration d \<Rightarrow> True | _ \<Rightarrow> False)"
| "calls M_create_image_pipeline a =
     (case a of ListImagePipelines n \<Rightarrow> True | DeleteImagePipeline x \<Rightarrow> True
      | CreateImagePipeline n r i d \<Rightarrow> True | _ \<Rightarrow> False)"
| "calls M_start_image_pipeline a = (case a of StartImagePipelineExecution p \<Rightarrow> True | _ \<Rightarrow> False)"

text \<open>
  \<open>post f R\<close>: whatever \<open>f\<close> returns or raises, the state it leaves is related to the state
  it started in by \<open>R\<close>. \<open>quiet\<close> steps change nothing; a step \<open>within m\<close> leaves the
  parsed definition alone and adds only calls that method \<open>m\<close> makes.
\<close>

definition post :: "'a act \<Rightarrow> (state \<Rightarrow> state \<Rightarrow> bool) \<Rightarrow> bool" where
  "post f R = (\<forall>s. R s (snd (f s)))"

definition quiet :: "state \<Rightarrow> state \<Rightarrow> bool" where
  "quiet s s' = (s' = s)"

definition emits :: "meth \<Rightarrow> state \<Rightarrow> state \<Rightarrow> bool" where
  "emits m s s' =
     (\<exists>evs. trace s' = trace s @ evs \<and> (\<forall>e \<in> set evs. fst e = m \<and> calls m (snd e)))"

definition within :: "meth \<Rightarrow> state \<Rightarrow> state \<Rightarrow> bool" where
  "within m s s' = (pipeline_dict s' = pipeline_dict s \<and> emits m s s')"

text \<open>
  What \<open>create_infrastructure_config\<close> does to the state: its calls are its own, a create
  call carries the definition with \<open>instanceProfileName\<close> set, and the parsed definition
  is unchanged or has that definition at each of the places.
\<close>

definition infra_step :: "place list \<Rightarrow> yaml \<Rightarrow> yaml \<Rightarrow> state \<Rightarrow> state \<Rightarrow> bool" where
  "infra_step places p d s s' =
     ((\<exists>evs. trace s' = trace s @ evs \<and>
         (\<forall>e \<in> set evs. fst e = M_create_infrastructure_config \<and>
            calls M_create_infrastructure_config (snd e) \<and>
            (\<forall>d'. snd e = CreateInfrastructureConfiguration d' \<longrightarrow>
                  setitem d ''instanceProfileName'' p = Inr d'))) \<and>
      (pipeline_dict s' = pipeline_dict s \<or>
       (\<exists>d'. setitem d ''instanceProfileName'' p = Inr d' \<and>
          pipeline_dict s' = set_all places d' (pipeline_dict s))))"

text \<open>
  \<open>hoare P f Q\<close>: from a state that satisfies \<open>P\<close>, the result and the final state of \<open>f\<close>
  satisfy \<open>Q\<close>.
\<close>

definition hoare :: "(state \<Rightarrow> bool) \<Rightarrow> 'a act \<Rightarrow> ((exn + 'a) \<Rightarrow> state \<Rightarrow> bool) \<Rightarrow> bool" where
  "hoare P f Q = (\<forall>s. P s \<longrightarrow> Q (fst (f s)) (snd (f s)))"

subsection \<open>The order of the stages\<close>

text \<open>
  The position of each method in \<open>run\<close>, and the order the specification gives (instance
  profile before image recipe). A trace is \<open>ordered\<close> when no call of a method follows a
  call of a later one.
\<close>

fun rank :: "meth \<Rightarrow> nat" where
  "rank M_get_session_details = 0"
| "rank M_delete_pipeline_resources = 1"
| "rank M_create_components = 2"
| "rank M_create_image_recipe = 3"
| "rank M_create_instance_profile = 4"
| "rank M_create_infrastructure_config = 5"
| "rank M_create_distribution_configuration = 6"
| "rank M_create_image_pipeline = 7"
| "rank M_start_image_pipeline = 8"

definition ordered :: "event list \<Rightarrow> bool" where
  "ordered t = sorted (map (\<lambda>e. rank (fst e)) t)"

definition upto :: "nat \<Rightarrow> state \<Rightarrow> bool" where
  "upto k s = (ordered (trace s) \<and> (\<forall>e \<in> set (trace s). rank (fst e) \<le> k))"

definition forward :: "nat \<Rightarrow> 'a act \<Rightarrow> bool" where
  "forward k f = hoare (upto k) f (\<lambda>r s. ordered (trace s))"

fun spec_rank :: "meth \<Rightarrow> nat" where
  "spec_rank M_get_session_details = 0"
| "spec_rank M_delete_pipeline_resources = 0"
| "spec_rank M_create_components = 1"
| "spec_rank M_create_instance_profile = 2"
| "spec_rank M_create_image_recipe = 3"
| "spec_rank M_create_infrastructure_config = 4"
| "spec_rank M_create_distribution_configuration = 5"
| "spec_rank M_create_image_pipeline = 6"
| "spec_rank M_start_image_pipeline = 7"

subsection \<open>A concrete world\<close>

text \<open>
  A definition with one inline component and a policy file, in an account where nothing
  exists yet and every call succeeds.
\<close>

definition demo_def :: yaml where
  "demo_def = YMap [
     (''platform'', YStr ''Linux''),
     (''components'', YList [YMap [(''install-agent'', YMap [(''description'', YStr ''agent'')])]]),
     (''image-recipe'', YMap [(''name'', YStr ''base-recipe''), (''description'', YStr ''base''),
                              (''parentImage'', YStr ''ami-1'')]),
     (''instance-profile'', YMap [(''name'', YStr ''web''), (''file'', YStr ''policy.json'')]),
     (''infrastructure-configuration'', YMap [(''name'', YStr ''infra'')]),
     (''distribution-configuration'', YMap [(''name'', YStr ''dist'')]),
     (''pipeline-name'', YStr ''pipe'')]"

fun demo_respond :: "event list \<Rightarrow> api \<Rightarrow> exn + response" where
  "demo_respond h GetCallerIdentity = Inr (Identity ''123456789012'' ''arn:aws:iam::123456789012:user/dev'')"
| "demo_respond h (ListInstanceProfiles p) = Inr (Listing [])"
| "demo_respond h (CreatePolicy n p d) = Inr (Arn ''arn:policy'')"
| "demo_respond h (ListComponents n) = Inr (Listing [])"
| "demo_respond h (CreateComponent n v d p b) = Inr (Arn ''arn:component'')"
| "demo_respond h (ListImageRecipes n) = Inr (Listing [])"
| "demo_respond h (CreateImageRecipe kw) = Inr (Arn ''arn:recipe'')"
| "demo_respond h (ListInfrastructureConfigurations n) = Inr (Listing [])"
| "demo_respond h (CreateInfrastructureConfiguration d) = Inr (Arn ''arn:infra'')"
| "demo_respond h (ListDistributionConfigurations n) = Inr (Listing [])"
| "demo_respond h (CreateDistributionConfiguration d) = Inr (Arn ''arn:dist'')"
| "demo_respond h (ListImagePipelines n) = Inr (Listing [])"
| "demo_respond h (CreateImagePipeline n r i d) = Inr (Arn ''arn:pipeline'')"
| "demo_respond h (StartImagePipelineExecution p) = Inr (Arn ''arn:image'')"
| "demo_respond h a = Inr NoContent"

definition demo_world :: "yaml \<Rightarrow> world" where
  "demo_world d =
     \<lparr>respond = demo_respond, load_yaml = (\<lambda>path. Inr d), load_json = (\<lambda>file. Inr ''{}''),
      now = (\<lambda>h. ''12:00:00''), repr = (\<lambda>v. []), aliases = (\<lambda>path. [])\<rparr>"

definition demo_options :: options where
  "demo_options =
     \<lparr>pipeline_def = ''pipeline.yaml'', component_bucket = None, start_pipeline = False,
      update = False\<rparr>"

text \<open>
  An account where everything exists already: a profile, two revisions of every component,
  the configurations and the pipeline. The policy has its five versions, listed newest
  first, so a new version is refused until \<open>v1\<close> is deleted; and one component ARN is
  rejected as malformed unless \<open>/1\<close> is appended.
\<close>

fun busy_respond :: "event list \<Rightarrow> api \<Rightarrow> exn + response" where
  "busy_respond h GetCallerIdentity =
     Inr (Identity ''123456789012'' ''arn:aws:iam::123456789012:user/dev'')"
| "busy_respond h (ListInstanceProfiles p) = Inr (Listing [''ec2-image-builder-default''])"
| "busy_respond h (CreatePolicyVersion a d) =
     (if (M_create_instance_profile, DeletePolicyVersion a ''v1'') \<in> set h
      then Inr NoContent else Inl LimitExceededException)"
| "busy_respond h (ListPolicyVersions a) =
     Inr (Versions [(''v5'', 50), (''v4'', 40), (''v3'', 30), (''v2'', 20), (''v1'', 10)])"
| "busy_respond h (GetComponent a) =
     (if a = YStr ''arn:aws:imagebuilder:us-east-1:aws:component/update-linux/1.0.0''
      then Inl InvalidParameterValueException else Inr NoContent)"
| "busy_respond h (ListComponents n) = Inr (Listing [''arn:component/1'', ''arn:component/2''])"
| "busy_respond h (CreateComponent n v d p b) = Inr (Arn ''arn:component/3'')"
| "busy_respond h (ListImageRecipes n) = Inr (Listing [''arn:recipe/1''])"
| "busy_respond h (CreateImageRecipe kw) = Inr (Arn ''arn:recipe/2'')"
| "busy_respond h (ListInfrastructureConfigurations n) = Inr (Listing [''arn:infra/existing''])"
| "busy_respond h (ListDistributionConfigurations n) = Inr (Listing [''arn:dist/existing''])"
| "busy_respond h (ListImagePipelines n) = Inr (Listing [''arn:pipeline/existing''])"
| "busy_respond h (CreateImagePipeline n r i d) = Inr (Arn ''arn:pipeline/new'')"
| "busy_respond h a = Inr NoContent"

definition busy_world :: "yaml \<Rightarrow> world" where
  "busy_world d =
     \<lparr>respond = busy_respond, load_yaml = (\<lambda>path. Inr d), load_json = (\<lambda>file. Inr ''{}''),
      now = (\<lambda>h. ''12:00:00''), repr = (\<lambda>v. []), aliases = (\<lambda>path. [])\<rparr>"

definition busy_options :: options where
  "busy_options =
     \<lparr>pipeline_def = ''pipeline.yaml'', component_bucket = Some ''staging'',
      start_pipeline = False, update = True\<rparr>"



definition quirk_arn :: string where
  "quirk_arn = ''arn:aws:imagebuilder:us-east-1:aws:component/update-linux/1.0.0''"

text \<open>Reading a decimal numeral back, to say what \<open>str_nat\<close> renders.\<close>

definition decimal :: "string \<Rightarrow> nat" where
  "decimal s = foldl (\<lambda>n c. 10 * n + (of_char c - 48)) 0 s"


subsection \<open>The parsed definition during a run\<close>





subsection \<open>A definition without a required key\<close>

text \<open>
  The seven top-level keys \<open>run\<close> reads, and for each the method \<open>run\<close> passes its value
  to (\<open>consumer\<close>): \<open>run\<close> reads the key when it evaluates the arguments of that call.
  A run has \<open>began\<close> when its first call, the caller-identity call, is made, and has
  \<open>opened\<close> when it has made session calls only. It is in \<open>doom\<close> for a key when it has
  begun, reading the key from the parsed definition raises, and every call so far was made
  by a method that \<open>run\<close> calls before the consumer of the key. It has \<open>failed\<close> for the key
  when its result is an exception, it has begun, and still every call was made by a method
  before the consumer of the key.
\<close>

definition required_keys :: "string list" where
  "required_keys =
     [''platform'', ''components'', ''image-recipe'', ''instance-profile'',
      ''infrastructure-configuration'', ''distribution-configuration'', ''pipeline-name'']"

definition consumer :: "string \<Rightarrow> meth" where
  "consumer k =
     (if k = ''platform'' \<or> k = ''components'' then M_create_components
      else if k = ''image-recipe'' then M_create_image_recipe
      else if k = ''instance-profile'' then M_create_instance_profile
      else if k = ''infrastructure-configuration'' then M_create_infrastructure_config
      else if k = ''distribution-configuration'' then M_create_distribution_configuration
      else M_create_image_pipeline)"

definition began :: "state \<Rightarrow> bool" where
  "began s = (\<exists>rest. trace s = (M_get_session_details, GetCallerIdentity) # rest)"

definition opened :: "state \<Rightarrow> bool" where
  "opened s = (began s \<and> (\<forall>e \<in> set (trace s). fst e = M_get_session_details))"

definition doom :: "string \<Rightarrow> state \<Rightarrow> bool" where
  "doom k s =
     (isl (getitem (pipeline_dict s) (YStr k)) \<and> began s \<and>
      (\<forall>e \<in> set (trace s). rank (fst e) < rank (consumer k)))"

definition failed :: "string \<Rightarrow> (exn + 'a) \<Rightarrow> state \<Rightarrow> bool" where
  "failed k r s =
     (isl r \<and> began s \<and> (\<forall>e \<in> set (trace s). rank (fst e) < rank (consumer k)))"

text \<open>The concrete definition without its \<open>image-recipe\<close> key.\<close>

definition no_recipe_def :: yaml where
  "no_recipe_def = YMap [
     (''platform'', YStr ''Linux''),
     (''components'', YList [YMap [(''install-agent'', YMap [(''description'', YStr ''agent'')])]]),
     (''instance-profile'', YMap [(''name'', YStr ''web'')]),
     (''infrastructure-configuration'', YMap [(''name'', YStr ''infra'')]),
     (''distribution-configuration'', YMap [(''name'', YStr ''dist'')]),
     (''pipeline-name'', YStr ''pipe'')]"

subsection \<open>A profile section without a policy file\<close>

text \<open>
  \<open>unprofiled parsed name s\<close>: no call in the trace is one of the nine identity-service
  operations of \<open>create_instance_profile\<close>, and every create call for the infrastructure
  configuration carries the definition's \<open>infrastructure-configuration\<close> mapping with
  \<open>instanceProfileName\<close> set to \<open>name\<close>. \<open>known\<close> adds that the parsed definition is still
  as loaded; \<open>clean\<close> is \<open>unprofiled\<close> as a postcondition.
\<close>

definition unprofiled :: "yaml \<Rightarrow> yaml \<Rightarrow> state \<Rightarrow> bool" where
  "unprofiled parsed name s =
     (\<forall>e \<in> set (trace s).
        \<not> calls M_create_instance_profile (snd e) \<and>
        (\<forall>d'. snd e = CreateInfrastructureConfiguration d' \<longrightarrow>
           (\<exists>d. getitem parsed (YStr ''infrastructure-configuration'') = Inr d \<and>
                setitem d ''instanceProfileName'' name = Inr d')))"

definition known :: "yaml \<Rightarrow> yaml \<Rightarrow> state \<Rightarrow> bool" where
  "known parsed name s = (pipeline_dict s = parsed \<and> unprofiled parsed name s)"

definition clean :: "yaml \<Rightarrow> yaml \<Rightarrow> (exn + 'a) \<Rightarrow> state \<Rightarrow> bool" where
  "clean parsed name r s = unprofiled parsed name s"

text \<open>
  The concrete definition with a profile name and no policy file, and the concrete world
  in which the profile \<open>imagebuilder-web\<close> is the only one listed.
\<close>

definition named_profile_def :: yaml where
  "named_profile_def = YMap [
     (''platform'', YStr ''Linux''),
     (''components'', YList [YMap [(''install-agent'', YMap [(''description'', YStr ''agent'')])]]),
     (''image-recipe'', YMap [(''name'', YStr ''base-recipe''), (''description'', YStr ''base''),
                              (''parentImage'', YStr ''ami-1'')]),
     (''instance-profile'', YMap [(''name'', YStr ''web'')]),
     (''infrastructure-configuration'', YMap [(''name'', YStr ''infra'')]),
     (''distribution-configuration'', YMap [(''name'', YStr ''dist'')]),
     (''pipeline-name'', YStr ''pipe'')]"

definition existing_profile_world :: world where
  "existing_profile_world =
     (demo_world demo_def)\<lparr>respond :=
        (\<lambda>h a. case a of ListInstanceProfiles p \<Rightarrow> Inr (Listing [''imagebuilder-web''])
                | _ \<Rightarrow> demo_respond h a)\<rparr>"

subsection \<open>Two component definitions\<close>

text \<open>An inline component, and a component given by reference.\<close>

definition agent_component :: yaml where
  "agent_component = YMap [(''install-agent'', YMap [(''description'', YStr ''agent'')])]"

definition linux_component :: yaml where
  "linux_component = YMap [(''update-linux'', YMap [(''arn'', YStr quirk_arn)])]"

section \<open>Lemmas\<close>

subsection \<open>Footprints of the methods\<close>

lemma within_refl: "within m s s"
  by (simp add: within_def emits_def)

lemma emits_trans:
  assumes "emits m s s'" and "emits m s' s''"
  shows "emits m s s''"
proof -
  from assms(1) obtain evs where 1: "trace s' = trace s @ evs"
    and 2: "\<forall>e \<in> set evs. fst e = m \<and> calls m (snd e)"
    unfolding emits_def by blast
  from assms(2) obtain evs' where 3: "trace s'' = trace s' @ evs'"
    and 4: "\<forall>e \<in> set evs'. fst e = m \<and> calls m (snd e)"
    unfolding emits_def by blast
  from 1 3 have "trace s'' = trace s @ (evs @ evs')" by simp
  moreover from 2 4 have "\<forall>e \<in> set (evs @ evs'). fst e = m \<and> calls m (snd e)" by auto
  ultimately show ?thesis unfolding emits_def by blast
qed

lemma within_trans: "within m s s' \<Longrightarrow> within m s' s'' \<Longrightarrow> within m s s''"
  unfolding within_def using emits_trans by auto

lemma post_quiet: "post f quiet \<Longrightarrow> post f (within m)"
  by (simp add: post_def quiet_def within_refl)

lemma post_return: "post (return x) quiet"
  by (simp add: post_def quiet_def return_def)

lemma post_raise: "post (raise e) quiet"
  by (simp add: post_def quiet_def raise_def)

lemma post_lift: "post (lift r) quiet"
  by (simp add: post_def quiet_def lift_def)

lemma post_item: "post (item k) quiet"
  by (simp add: post_def quiet_def item_def)

lemma post_loaded: "post loaded quiet"
  by (simp add: post_def quiet_def loaded_def)

lemma post_clock: "post (clock w) quiet"
  by (simp add: post_def quiet_def clock_def)

lemmas post_pure = post_return post_raise post_lift post_item post_loaded post_clock

lemma post_call: "calls m a \<Longrightarrow> post (call w m a) (within m)"
  by (simp add: post_def within_def emits_def call_def)

lemma post_bind:
  assumes "post f (within m)" and "\<And>x. post (g x) (within m)"
  shows "post (bind f g) (within m)"
  unfolding post_def
proof
  fix s
  have f: "within m s (snd (f s))" using assms(1) by (simp add: post_def)
  show "within m s (snd (bind f g s))"
  proof (cases "f s")
    case (Pair r s')
    show ?thesis
    proof (cases r)
      case (Inl e)
      with Pair f show ?thesis by (simp add: bind_def)
    next
      case (Inr x)
      have "within m s' (snd (g x s'))" using assms(2) by (simp add: post_def)
      with Pair Inr f show ?thesis by (auto simp: bind_def intro: within_trans)
    qed
  qed
qed

lemma post_try:
  assumes "post f (within m)" and "\<And>e g. h e = Some g \<Longrightarrow> post g (within m)"
  shows "post (try_except f h) (within m)"
  unfolding post_def
proof
  fix s
  have f: "within m s (snd (f s))" using assms(1) by (simp add: post_def)
  show "within m s (snd (try_except f h s))"
  proof (cases "f s")
    case (Pair r s')
    show ?thesis
    proof (cases r)
      case (Inr x)
      with Pair f show ?thesis by (simp add: try_except_def)
    next
      case (Inl e)
      show ?thesis
      proof (cases "h e")
        case None
        with Pair Inl f show ?thesis by (simp add: try_except_def)
      next
        case (Some g)
        then have "within m s' (snd (g s'))" using assms(2) by (simp add: post_def)
        with Pair Inl Some f show ?thesis by (auto simp: try_except_def intro: within_trans)
      qed
    qed
  qed
qed

lemma post_if: "(c \<Longrightarrow> post f R) \<Longrightarrow> (\<not> c \<Longrightarrow> post g R) \<Longrightarrow> post (if c then f else g) R"
  by simp

lemma post_option:
  "(x = None \<Longrightarrow> post f R) \<Longrightarrow> (\<And>y. x = Some y \<Longrightarrow> post (g y) R)
   \<Longrightarrow> post (case x of None \<Rightarrow> f | Some y \<Rightarrow> g y) R"
  by (cases x) simp_all

lemmas post_steps = post_bind post_try post_if post_option post_call post_pure [THEN post_quiet]

lemma within_get_session_details: "post (get_session_details w) (within M_get_session_details)"
  unfolding get_session_details_def by (intro post_steps) simp_all

lemma within_create_image_recipe:
  "post (create_image_recipe w component_arns recipe_def) (within M_create_image_recipe)"
  unfolding create_image_recipe_def Let_def by (intro post_steps) simp_all

lemma within_create_distribution_configuration:
  "post (create_distribution_configuration w distribution_def) (within M_create_distribution_configuration)"
  unfolding create_distribution_configuration_def by (intro post_steps) simp_all

lemma within_create_image_pipeline:
  "post (create_image_pipeline w n r i d) (within M_create_image_pipeline)"
  unfolding create_image_pipeline_def by (intro post_steps) simp_all

lemma within_start_image_pipeline:
  "post (start_image_pipeline w p) (within M_start_image_pipeline)"
  unfolding start_image_pipeline_def by (intro post_steps) simp_all

lemma within_delete_pipeline_resources:
  "post (delete_pipeline_resources w self d) (within M_delete_pipeline_resources)"
  unfolding delete_pipeline_resources_def by (intro post_steps) simp_all

lemma within_create_instance_profile:
  "post (create_instance_profile w self profile_dict account_id) (within M_create_instance_profile)"
  unfolding create_instance_profile_def Let_def
  apply (intro post_steps)
  apply (simp_all split: if_splits)
  apply (auto intro!: post_steps)
  done

lemma within_resolve:
  "post (resolve w self platform component_list component) (within M_create_components)"
proof (cases component)
  case (YMap kvs)
  show ?thesis
    unfolding YMap resolve.simps Let_def
    apply (intro post_steps)
    apply (simp_all split: if_splits)
    apply (auto intro!: post_steps)
    done
qed (simp_all add: post_raise [THEN post_quiet])

lemma within_resolve_all:
  "post (resolve_all w self platform components component_list) (within M_create_components)"
  by (induction components arbitrary: component_list)
     (auto intro!: post_steps within_resolve)

lemma within_create_components:
  "post (create_components w self platform component_def) (within M_create_components)"
  unfolding create_components_def by (intro post_steps within_resolve_all)


lemma step_create_infrastructure_config:
  "post (create_infrastructure_config w self p d) (infra_step (infra_places w self) p d)"
  unfolding post_def
proof
  fix s
  show "infra_step (infra_places w self) p d s (snd (create_infrastructure_config w self p d s))"
    unfolding create_infrastructure_config_def infra_step_def
    by (auto simp: bind_def lift_def call_def store_def split: sum.splits prod.splits)
qed

lemma infra_step_emits:
  "infra_step places p d s s' \<Longrightarrow> emits M_create_infrastructure_config s s'"
  unfolding infra_step_def emits_def by blast

subsection \<open>Rules for sequences of steps\<close>

lemma hoare_bind:
  assumes "post f R"
    and "\<And>s s'. P s \<Longrightarrow> R s s' \<Longrightarrow> P' s'"
    and "\<And>e s. P' s \<Longrightarrow> Q (Inl e) s"
    and "\<And>x. hoare P' (g x) Q"
  shows "hoare P (bind f g) Q"
  unfolding hoare_def
proof (intro allI impI)
  fix s
  assume P: "P s"
  have P': "P' (snd (f s))" using assms(1,2) P by (simp add: post_def)
  show "Q (fst (bind f g s)) (snd (bind f g s))"
  proof (cases "f s")
    case (Pair r s')
    show ?thesis
    proof (cases r)
      case (Inl e)
      with Pair P' assms(3) show ?thesis by (simp add: bind_def)
    next
      case (Inr x)
      with Pair P' assms(4) [of x] show ?thesis by (simp add: bind_def hoare_def)
    qed
  qed
qed


lemma hoare_last:
  assumes "post f R" and "\<And>s s' r. P s \<Longrightarrow> R s s' \<Longrightarrow> Q r s'"
  shows "hoare P f Q"
  using assms by (simp add: hoare_def post_def)

lemma hoare_prod: "(\<And>a b. hoare P (h a b) Q) \<Longrightarrow> hoare P (case x of (a, b) \<Rightarrow> h a b) Q"
  by (cases x) simp


subsection \<open>Calls never go back to an earlier method\<close>

lemma sorted_same_rank: "\<forall>e \<in> set evs. fst e = m \<Longrightarrow> sorted (map (\<lambda>e. rank (fst e)) evs)"
  by (induction evs) auto

lemma upto_emits:
  assumes "upto k s" and "emits m s s'" and "k \<le> rank m"
  shows "upto (rank m) s'"
proof -
  from assms(2) obtain evs where t: "trace s' = trace s @ evs"
    and evs: "\<forall>e \<in> set evs. fst e = m"
    unfolding emits_def by blast
  have "sorted (map (\<lambda>e. rank (fst e)) evs)" using evs by (rule sorted_same_rank)
  moreover have "\<forall>e \<in> set (trace s). rank (fst e) \<le> rank m"
    using assms(1,3) unfolding upto_def by auto
  ultimately show ?thesis
    using assms(1) t evs unfolding upto_def ordered_def by (auto simp: sorted_append)
qed


lemma forward_stage:
  assumes "post f (emits m)" and "k \<le> rank m" and "\<And>x. forward (rank m) (g x)"
  shows "forward k (bind f g)"
  unfolding forward_def
proof (rule hoare_bind [OF assms(1), where P' = "upto (rank m)"])
  show "upto (rank m) s'" if "upto k s" and "emits m s s'" for s s'
    using that assms(2) by (rule upto_emits)
  show "ordered (trace s)" if "upto (rank m) s" for s
    using that by (simp add: upto_def)
  show "hoare (upto (rank m)) (g x) (\<lambda>r s. ordered (trace s))" for x
    using assms(3) by (simp add: forward_def)
qed

lemma forward_quiet:
  assumes "post f R" and "\<And>s s'. R s s' \<Longrightarrow> trace s' = trace s" and "\<And>x. forward k (g x)"
  shows "forward k (bind f g)"
  unfolding forward_def
proof (rule hoare_bind [OF assms(1), where P' = "upto k"])
  show "upto k s'" if "upto k s" and "R s s'" for s s'
    using that assms(2) by (simp add: upto_def)
  show "ordered (trace s)" if "upto k s" for s
    using that by (simp add: upto_def)
  show "hoare (upto k) (g x) (\<lambda>r s. ordered (trace s))" for x
    using assms(3) by (simp add: forward_def)
qed

lemma forward_last:
  assumes "post f (emits m)" and "k \<le> rank m"
  shows "forward k f"
  unfolding forward_def
proof (rule hoare_last [OF assms(1)])
  show "ordered (trace s')" if "upto k s" and "emits m s s'" for s s'
    using upto_emits [OF that assms(2)] by (simp add: upto_def)
qed

lemma forward_return: "forward k (return x)"
  unfolding forward_def by (simp add: hoare_def return_def upto_def)

lemma forward_if: "forward k f \<Longrightarrow> forward k g \<Longrightarrow> forward k (if c then f else g)"
  by simp

lemma forward_prod: "(\<And>a b. forward k (h a b)) \<Longrightarrow> forward k (case x of (a, b) \<Rightarrow> h a b)"
  by (cases x) simp

lemma post_emits: "post f (within m) \<Longrightarrow> post f (emits m)"
  by (simp add: post_def within_def)

lemma post_load: "post (load d) (\<lambda>s s'. trace s' = trace s)"
  by (simp add: post_def load_def)

lemma quiet_trace: "quiet s s' \<Longrightarrow> trace s' = trace s"
  by (simp add: quiet_def)

lemmas within_stages =
  within_get_session_details within_delete_pipeline_resources within_create_components
  within_create_image_recipe within_create_instance_profile
  within_create_distribution_configuration within_create_image_pipeline
  within_start_image_pipeline

lemma emits_create_infrastructure_config:
  "post (create_infrastructure_config w self p d) (emits M_create_infrastructure_config)"
  using step_create_infrastructure_config [of w self p d]
  by (auto simp: post_def intro: infra_step_emits)

lemma forward_run: "forward 0 (run w self)"
  unfolding run_def
  apply (rule forward_stage [where m = M_get_session_details])
    apply (intro post_emits post_steps within_stages; simp)
   apply simp
  apply (rule forward_quiet [OF post_lift quiet_trace], assumption)
  apply (rule forward_prod)
  apply (rule forward_quiet [OF post_lift quiet_trace], assumption)
  apply (rule forward_quiet [OF post_lift quiet_trace], assumption)
  apply (rule forward_quiet [OF post_load], assumption)
  apply (rule forward_stage [where m = M_delete_pipeline_resources])
    apply (intro post_emits post_steps within_stages; simp)
   apply simp
  apply (rule forward_quiet [OF post_item quiet_trace], assumption)
  apply (rule forward_quiet [OF post_item quiet_trace], assumption)
  apply (rule forward_stage [where m = M_create_components])
    apply (intro post_emits post_steps within_stages; simp)
   apply simp
  apply (rule forward_quiet [OF post_item quiet_trace], assumption)
  apply (rule forward_stage [where m = M_create_image_recipe])
    apply (intro post_emits post_steps within_stages; simp)
   apply simp
  apply (rule forward_quiet [OF post_item quiet_trace], assumption)
  apply (rule forward_quiet [OF post_lift quiet_trace], assumption)
  apply (rule forward_stage [where m = M_create_instance_profile])
    apply (intro post_emits post_steps within_stages; simp)
   apply simp
  apply (rule forward_quiet [OF post_item quiet_trace], assumption)
  apply (rule forward_stage [where m = M_create_infrastructure_config])
    apply (rule emits_create_infrastructure_config)
   apply simp
  apply (rule forward_quiet [OF post_item quiet_trace], assumption)
  apply (rule forward_stage [where m = M_create_distribution_configuration])
    apply (intro post_emits post_steps within_stages; simp)
   apply simp
  apply (rule forward_quiet [OF post_item quiet_trace], assumption)
  apply (rule forward_stage [where m = M_create_image_pipeline])
    apply (intro post_emits post_steps within_stages; simp)
   apply simp
  apply (rule forward_if)
   apply (rule forward_last [where m = M_start_image_pipeline])
    apply (intro post_emits post_steps within_stages; simp)
   apply simp
  apply (rule forward_return)
  done

subsection \<open>Version numbers\<close>

lemma digit_char: "n < 10 \<Longrightarrow> of_char (''0123456789'' ! n) = (48 + n :: nat)"
proof -
  assume "n < 10"
  then consider "n = 0" | "n = 1" | "n = 2" | "n = 3" | "n = 4" | "n = 5" | "n = 6" | "n = 7"
    | "n = 8" | "n = 9"
    by atomize_elim presburger
  then show ?thesis by cases simp_all
qed

lemma decimal_snoc: "decimal (s @ [c]) = 10 * decimal s + (of_char c - 48)"
  by (simp add: decimal_def)

lemma decimal_str_nat: "decimal (str_nat n) = n"
proof (induction n rule: str_nat.induct)
  case (1 n)
  show ?case
  proof (cases "n < 10")
    case True
    then show ?thesis
      by (subst str_nat.simps) (simp add: decimal_def digit_char)
  next
    case False
    have "n mod 10 < 10" by simp
    then have d: "of_char (''0123456789'' ! (n mod 10)) = (48 + n mod 10 :: nat)"
      by (rule digit_char)
    from False have "decimal (str_nat n) = 10 * decimal (str_nat (n div 10)) + n mod 10"
      by (subst str_nat.simps) (simp add: decimal_snoc d del: nth_Cons_numeral)
    with 1 False show ?thesis by simp
  qed
qed

lemma str_nat_1: "str_nat (Suc 0) = ''1''"
  by (simp add: str_nat.simps)

lemma str_nat_3: "str_nat (Suc (Suc (Suc 0))) = ''3''"
  by (simp add: str_nat.simps)


lemmas act_defs = bind_def lift_def call_def return_def raise_def try_except_def

subsection \<open>More rules for sequences of steps\<close>

lemma hoare_within:
  assumes "post f (within m)"
    and "\<And>s s'. P s \<Longrightarrow> within m s s' \<Longrightarrow> P s'"
    and "\<And>e s. P s \<Longrightarrow> Q (Inl e) s"
    and "\<And>x. hoare P (g x) Q"
  shows "hoare P (bind f g) Q"
  using assms by (rule hoare_bind)

lemma hoare_lift:
  assumes "\<And>e s. P s \<Longrightarrow> Q (Inl e) s"
    and "\<And>x. r = Inr x \<Longrightarrow> hoare P (g x) Q"
  shows "hoare P (bind (lift r) g) Q"
proof (cases r)
  case (Inl e)
  then show ?thesis using assms(1) by (simp add: hoare_def bind_def lift_def)
next
  case (Inr x)
  then show ?thesis using assms(2) [of x] by (simp add: hoare_def bind_def lift_def)
qed


lemma hoare_within_last:
  assumes "post f (within m)" and "\<And>s s' r. P s \<Longrightarrow> within m s s' \<Longrightarrow> Q r s'"
  shows "hoare P f Q"
  using assms by (rule hoare_last)

lemma post_load_dict: "post (load d) (\<lambda>s s'. pipeline_dict s' = d \<and> trace s' = trace s)"
  by (simp add: post_def load_def)

lemmas within_blocks = post_steps within_stages

subsection \<open>The parsed definition changes at most once\<close>



subsection \<open>A missing key makes the run fail\<close>

lemma began_emits: "began s \<Longrightarrow> emits m s s' \<Longrightarrow> began s'"
  unfolding began_def emits_def by auto

lemma doom_emits:
  assumes "doom k s" and "emits m s s'" and "pipeline_dict s' = pipeline_dict s"
    and "rank m < rank (consumer k)"
  shows "doom k s'"
proof -
  from assms(2) obtain evs where evs: "trace s' = trace s @ evs"
    and own: "\<forall>e \<in> set evs. fst e = m \<and> calls m (snd e)"
    unfolding emits_def by blast
  have "began s'" using assms(1,2) began_emits by (auto simp: doom_def)
  moreover have "\<forall>e \<in> set (trace s'). rank (fst e) < rank (consumer k)"
    using assms(1,4) evs own by (auto simp: doom_def)
  ultimately show ?thesis using assms(1,3) by (simp add: doom_def)
qed

lemma doom_within: "doom k s \<Longrightarrow> within m s s' \<Longrightarrow> rank m < rank (consumer k) \<Longrightarrow> doom k s'"
  unfolding within_def using doom_emits by blast

lemma doom_failed: "doom k s \<Longrightarrow> failed k (Inl e) s"
  by (simp add: failed_def doom_def)

lemma rank_consumer: "rank M_delete_pipeline_resources < rank (consumer k)"
  by (simp add: consumer_def)

lemma map_of_replace:
  "(map_of (map (\<lambda>kv. if fst kv = k0 then (k0, f (snd kv)) else kv) kvs) k = None) =
   (map_of kvs k = None)"
  by (induction kvs) auto

lemma unreadable_set_at:
  "isl (getitem (set_at (st # p) v d) (YStr k)) = isl (getitem d (YStr k))"
proof (cases st)
  case (Key k0)
  show ?thesis
  proof (cases d)
    case (YMap kvs)
    show ?thesis
      using map_of_replace [of k0 "set_at p v" kvs k]
      by (auto simp: Key YMap split: option.splits)
  qed (simp_all add: Key)
next
  case (Index i)
  show ?thesis by (cases d) (simp_all add: Index)
qed

lemma unreadable_set_all:
  "isl (getitem (set_all places v d) (YStr k)) = isl (getitem d (YStr k))"
  unfolding set_all_def
  by (induction places arbitrary: d) (simp_all add: unreadable_set_at)

lemma doom_infra_step:
  assumes "doom k s" and "infra_step places p d s s'"
    and "rank M_create_infrastructure_config < rank (consumer k)"
  shows "doom k s'"
proof -
  from assms(2) obtain evs where evs: "trace s' = trace s @ evs"
    and own: "\<forall>e \<in> set evs. fst e = M_create_infrastructure_config"
    unfolding infra_step_def by blast
  have "began s'"
    using assms(1) began_emits [OF _ infra_step_emits [OF assms(2)]] by (simp add: doom_def)
  moreover have "\<forall>e \<in> set (trace s'). rank (fst e) < rank (consumer k)"
    using assms(1,3) evs own by (auto simp: doom_def)
  moreover have "isl (getitem (pipeline_dict s') (YStr k))"
    using assms(1,2) by (auto simp: doom_def infra_step_def unreadable_set_all)
  ultimately show ?thesis by (simp add: doom_def)
qed

lemma doomed_within:
  assumes "post f (within m)" and "rank m < rank (consumer k)"
    and "\<And>x. hoare (doom k) (g x) (failed k)"
  shows "hoare (doom k) (bind f g) (failed k)"
  using assms(1)
proof (rule hoare_within)
  show "doom k s'" if "doom k s" and "within m s s'" for s s'
    using that assms(2) by (rule doom_within)
  show "failed k (Inl e) s" if "doom k s" for e :: exn and s
    using that by (rule doom_failed)
  show "hoare (doom k) (g x) (failed k)" for x by (rule assms(3))
qed

lemma doomed_item:
  assumes "\<And>x. k \<noteq> k' \<Longrightarrow> hoare (doom k) (g x) (failed k)"
  shows "hoare (doom k) (bind (item k') g) (failed k)"
proof (cases "k = k'")
  case True
  show ?thesis
    unfolding hoare_def
  proof (intro allI impI)
    fix s
    assume d: "doom k s"
    then obtain e where "getitem (pipeline_dict s) (YStr k) = Inl e"
      by (cases "getitem (pipeline_dict s) (YStr k)") (auto simp: doom_def)
    with d True show "failed k (fst (bind (item k') g s)) (snd (bind (item k') g s))"
      by (simp add: bind_def item_def failed_def doom_def)
  qed
next
  case False
  show ?thesis
    by (rule doomed_within [OF post_item [THEN post_quiet, of _ M_delete_pipeline_resources]
          rank_consumer])
       (rule assms [OF False])
qed

lemma doomed_infra:
  assumes "rank M_create_infrastructure_config < rank (consumer k)"
    and "\<And>x. hoare (doom k) (g x) (failed k)"
  shows "hoare (doom k) (bind (create_infrastructure_config w self p d) g) (failed k)"
proof (rule hoare_bind [OF step_create_infrastructure_config, where P' = "doom k"])
  show "doom k s'" if "doom k s" and "infra_step places p d s s'" for s s' places
    using that assms(1) by (rule doom_infra_step)
  show "failed k (Inl e) s" if "doom k s" for e :: exn and s
    using that by (rule doom_failed)
  show "hoare (doom k) (g x) (failed k)" for x by (rule assms(2))
qed

lemma opened_get_session_details: "trace s = [] \<Longrightarrow> opened (snd (get_session_details w s))"
  using within_get_session_details [of w]
  by (auto simp: opened_def began_def post_def within_def emits_def
        get_session_details_def act_defs split: sum.splits)

lemma doomed_run_body:
  assumes "k \<in> set required_keys"
  shows "hoare (doom k)
     (bind (if update self then bind loaded (delete_pipeline_resources w self) else return ()) (\<lambda>u1.
     bind (item ''platform'') (\<lambda>platform.
     bind (item ''components'') (\<lambda>component_def.
     bind (create_components w self platform component_def) (\<lambda>component_list.
     bind (item ''image-recipe'') (\<lambda>recipe_def.
     bind (create_image_recipe w component_list recipe_def) (\<lambda>recipe_arn.
     bind (item ''instance-profile'') (\<lambda>profile_dict.
     bind (lift (get profile_dict ''file'')) (\<lambda>file.
     bind (if file \<noteq> YNull then
             bind (item ''instance-profile'') (\<lambda>profile_dict.
             bind (create_instance_profile w self profile_dict account_id) (\<lambda>resource_name.
             return (YStr resource_name)))
           else
             bind (item ''instance-profile'') (\<lambda>profile_dict.
             lift (get profile_dict ''name''))) (\<lambda>instance_profile_name.
     bind (item ''infrastructure-configuration'') (\<lambda>infrastructure_def.
     bind (create_infrastructure_config w self instance_profile_name infrastructure_def) (\<lambda>infrastructure_arn.
     bind (item ''distribution-configuration'') (\<lambda>distribution_def.
     bind (create_distribution_configuration w distribution_def) (\<lambda>distribution_arn.
     bind (item ''pipeline-name'') (\<lambda>pipeline_name.
     bind (create_image_pipeline w pipeline_name recipe_arn infrastructure_arn distribution_arn) (\<lambda>pipeline_arn.
     if start_pipeline self then
       bind (start_image_pipeline w pipeline_arn) (\<lambda>image_arn. return ())
     else return ()))))))))))))))))
     (failed k)"
  using assms
  apply -
  apply (rule doomed_within [where m = M_delete_pipeline_resources])
    apply (intro within_blocks; simp)
   apply (rule rank_consumer)
  apply (rule doomed_item)
  apply (rule doomed_item)
  apply (rule doomed_within [OF within_create_components])
   apply (auto simp: consumer_def required_keys_def)[1]
  apply (rule doomed_item)
  apply (rule doomed_within [OF within_create_image_recipe])
   apply (auto simp: consumer_def required_keys_def)[1]
  apply (rule doomed_item)
  apply (rule doomed_within [where m = M_create_instance_profile])
    apply (intro within_blocks; simp)
   apply (auto simp: consumer_def required_keys_def)[1]
  apply (rule doomed_within [where m = M_create_instance_profile])
    apply (intro within_blocks; simp)
   apply (auto simp: consumer_def required_keys_def)[1]
  apply (rule doomed_item)
  apply (rule doomed_infra)
   apply (auto simp: consumer_def required_keys_def)[1]
  apply (rule doomed_item)
  apply (rule doomed_within [OF within_create_distribution_configuration])
   apply (auto simp: consumer_def required_keys_def)[1]
  apply (rule doomed_item)
  apply (simp add: required_keys_def)
  done

lemma post_self: "post f (\<lambda>s s'. s' = snd (f s))"
  by (simp add: post_def)

lemma doom_loaded:
  assumes "k \<notin> fst ` set kvs" and "opened s"
    and "pipeline_dict s' = d \<and> trace s' = trace s" and "Inr d = Inr (YMap kvs)"
  shows "doom k s'"
  using assms
  by (auto simp: doom_def opened_def began_def consumer_def map_of_eq_None_iff [THEN iffD2])

lemma opened_failed: "opened s \<Longrightarrow> failed k (Inl e) s"
  by (auto simp: failed_def opened_def consumer_def)

lemma failed_run:
  assumes "load_yaml w (pipeline_def self) = Inr (YMap kvs)"
    and "k \<in> set required_keys" and "k \<notin> fst ` set kvs"
  shows "hoare (\<lambda>s. trace s = []) (run w self) (failed k)"
  unfolding run_def
  apply (rule hoare_bind [OF post_self, where P' = opened])
    apply (simp add: opened_get_session_details)
   apply (rule opened_failed, assumption)
  apply (rule hoare_lift, rule opened_failed, assumption)
  apply (rule hoare_prod)
  apply (rule hoare_lift, rule opened_failed, assumption)
  apply (rule hoare_lift, rule opened_failed, assumption)
  apply (rule hoare_bind [OF post_load_dict, where P' = "doom k"])
    apply (erule doom_loaded [OF assms(3)], simp, simp add: assms(1))
   apply (rule doom_failed, assumption)
  apply (rule doomed_run_body [OF assms(2)])
  done

subsection \<open>No profile calls without a policy file\<close>

lemma calls_not_profile:
  "calls m a \<Longrightarrow> m \<noteq> M_create_instance_profile \<Longrightarrow> \<not> calls M_create_instance_profile a"
  by (cases m; cases a; simp)

lemma calls_create_infrastructure:
  "calls m (CreateInfrastructureConfiguration d) \<Longrightarrow> m = M_create_infrastructure_config"
  by (cases m) simp_all

lemma unprofiled_within:
  assumes "unprofiled parsed name s" and "within m s s'"
    and "m \<noteq> M_create_instance_profile" and "m \<noteq> M_create_infrastructure_config"
  shows "unprofiled parsed name s'"
proof -
  from assms(2) obtain evs where t: "trace s' = trace s @ evs"
    and evs: "\<forall>e \<in> set evs. fst e = m \<and> calls m (snd e)"
    unfolding within_def emits_def by blast
  have "\<not> calls M_create_instance_profile (snd e) \<and>
        (\<forall>d'. snd e \<noteq> CreateInfrastructureConfiguration d')" if "e \<in> set evs" for e
    using evs that assms(3,4) calls_not_profile calls_create_infrastructure by metis
  with assms(1) t show ?thesis
    unfolding unprofiled_def by auto
qed

lemma unprofiled_infra_step:
  assumes "unprofiled parsed name s" and "infra_step places name d s s'"
    and "getitem parsed (YStr ''infrastructure-configuration'') = Inr d"
  shows "unprofiled parsed name s'"
proof -
  from assms(2) obtain evs where t: "trace s' = trace s @ evs"
    and evs: "\<forall>e \<in> set evs. fst e = M_create_infrastructure_config \<and>
            calls M_create_infrastructure_config (snd e) \<and>
            (\<forall>d'. snd e = CreateInfrastructureConfiguration d' \<longrightarrow>
                  setitem d ''instanceProfileName'' name = Inr d')"
    unfolding infra_step_def by blast
  have "\<not> calls M_create_instance_profile (snd e)" if "e \<in> set evs" for e
    using evs that calls_not_profile [of M_create_infrastructure_config "snd e"] by simp
  with assms(1,3) t evs show ?thesis
    unfolding unprofiled_def by auto
qed

lemma bind_assoc: "bind (bind f g) h = bind f (\<lambda>x. bind (g x) h)"
  by (rule ext) (simp add: bind_def split: prod.splits sum.splits)

lemma hoare_item_known:
  assumes "\<And>s. P s \<Longrightarrow> pipeline_dict s = d"
    and "\<And>e s. P s \<Longrightarrow> Q (Inl e) s"
    and "\<And>x. getitem d (YStr k) = Inr x \<Longrightarrow> hoare P (g x) Q"
  shows "hoare P (bind (item k) g) Q"
  unfolding hoare_def
proof (intro allI impI)
  fix s
  assume P: "P s"
  then have d: "pipeline_dict s = d" by (rule assms(1))
  show "Q (fst (bind (item k) g s)) (snd (bind (item k) g s))"
  proof (cases "getitem d (YStr k)")
    case (Inl e)
    with P d assms(2) show ?thesis by (simp add: bind_def item_def)
  next
    case (Inr x)
    with P d assms(3) [of x] show ?thesis by (simp add: bind_def item_def hoare_def)
  qed
qed

lemma known_within:
  assumes "post f (within m)"
    and "m \<noteq> M_create_instance_profile" and "m \<noteq> M_create_infrastructure_config"
    and "\<And>x. hoare (known parsed name) (g x) (clean parsed name)"
  shows "hoare (known parsed name) (bind f g) (clean parsed name)"
  using assms(1)
proof (rule hoare_within)
  show "known parsed name s'" if "known parsed name s" and "within m s s'" for s s'
    using that unprofiled_within [OF _ _ assms(2,3)] by (auto simp: known_def within_def)
  show "clean parsed name (Inl e) s" if "known parsed name s" for e :: exn and s
    using that by (simp add: known_def clean_def)
  show "hoare (known parsed name) (g x) (clean parsed name)" for x by (rule assms(4))
qed

lemma unprofiled_step:
  assumes "post f (within m)"
    and "m \<noteq> M_create_instance_profile" and "m \<noteq> M_create_infrastructure_config"
    and "\<And>x. hoare (unprofiled parsed name) (g x) (clean parsed name)"
  shows "hoare (unprofiled parsed name) (bind f g) (clean parsed name)"
  using assms(1)
proof (rule hoare_within)
  show "unprofiled parsed name s'" if "unprofiled parsed name s" and "within m s s'" for s s'
    using that assms(2,3) by (rule unprofiled_within)
  show "clean parsed name (Inl e) s" if "unprofiled parsed name s" for e :: exn and s
    using that by (simp add: clean_def)
  show "hoare (unprofiled parsed name) (g x) (clean parsed name)" for x by (rule assms(4))
qed

lemma known_infra_step:
  assumes "getitem parsed (YStr ''infrastructure-configuration'') = Inr d"
    and "known parsed name s" and "infra_step places name d s s'"
  shows "unprofiled parsed name s'"
proof (rule unprofiled_infra_step)
  show "unprofiled parsed name s" using assms(2) by (simp add: known_def)
qed (rule assms(3), rule assms(1))

lemma hoare_lift_value: "hoare P (g x) Q \<Longrightarrow> hoare P (bind (lift (Inr x)) g) Q"
  by (simp add: hoare_def bind_def lift_def)

lemma hoare_item_value:
  assumes "\<And>s. P s \<Longrightarrow> pipeline_dict s = d" and "getitem d (YStr k) = Inr x"
    and "hoare P (g x) Q"
  shows "hoare P (bind (item k) g) Q"
  using assms by (simp add: hoare_def bind_def item_def)

lemma clean_run:
  assumes "load_yaml w (pipeline_def self) = Inr parsed"
    and "getitem parsed (YStr ''instance-profile'') = Inr profile_dict"
    and "get profile_dict ''file'' = Inr YNull"
    and "get profile_dict ''name'' = Inr name"
  shows "hoare (unprofiled parsed name) (run w self) (clean parsed name)"
  unfolding run_def assms(1)
  apply (rule unprofiled_step [OF within_get_session_details], simp, simp)
  apply (rule hoare_lift, simp add: clean_def)
  apply (rule hoare_prod)
  apply (rule hoare_lift, simp add: clean_def)
  apply (rule hoare_lift_value)
  apply (rule hoare_bind [OF post_load_dict, where P' = "known parsed name"])
    apply (simp add: known_def unprofiled_def)
   apply (simp add: known_def clean_def)
  apply (rule known_within [where m = M_delete_pipeline_resources])
     apply (intro within_blocks; simp)
    apply simp
   apply simp
  apply (rule known_within [OF post_item [THEN post_quiet, of _ M_create_components]], simp, simp)
  apply (rule known_within [OF post_item [THEN post_quiet, of _ M_create_components]], simp, simp)
  apply (rule known_within [OF within_create_components], simp, simp)
  apply (rule known_within [OF post_item [THEN post_quiet, of _ M_create_components]], simp, simp)
  apply (rule known_within [OF within_create_image_recipe], simp, simp)
  apply (rule hoare_item_value [OF _ assms(2)], simp add: known_def)
  apply (simp only: assms(3))
  apply (rule hoare_lift_value)
  apply (simp add: bind_assoc)
  apply (rule hoare_item_value [OF _ assms(2)], simp add: known_def)
  apply (simp only: assms(4))
  apply (rule hoare_lift_value)
  apply (rule hoare_item_known [where d = parsed])
    apply (simp add: known_def)
   apply (simp add: known_def clean_def)
  apply (rule hoare_bind [OF step_create_infrastructure_config, where P' = "unprofiled parsed name"])
    apply (rule known_infra_step; assumption)
   apply (simp add: clean_def)
  apply (rule unprofiled_step [OF post_item [THEN post_quiet, of _ M_create_components]], simp, simp)
  apply (rule unprofiled_step [OF within_create_distribution_configuration], simp, simp)
  apply (rule unprofiled_step [OF post_item [THEN post_quiet, of _ M_create_components]], simp, simp)
  apply (rule unprofiled_step [OF within_create_image_pipeline], simp, simp)
  apply (rule hoare_within_last [where m = M_start_image_pipeline])
   apply (intro within_blocks; simp)
  apply (simp add: clean_def unprofiled_within)
  done

lemma named_profile_run_creates_infrastructure:
  "(M_create_infrastructure_config,
    CreateInfrastructureConfiguration
      (YMap [(''name'', YStr ''infra''), (''instanceProfileName'', YStr ''web'')]))
   \<in> set (trace (snd (run (demo_world named_profile_def) demo_options start)))"
  by code_simp


subsection \<open>What decides the branch of the profile method\<close>

text \<open>
  Outside update mode, \<open>create_instance_profile\<close> returns the derived name right after
  the listing exactly when some listed profile name contains \<open>ec2-image-builder-default\<close>.
  The derived name plays no part in the test.
\<close>

lemma filter_nonempty: "(length (filter P xs) > 0) = (\<exists>x \<in> set xs. P x)"
  by (induction xs) auto

lemma reuse_decided_by_fixed_name:
  assumes "\<not> update self"
    and "getitem profile_dict (YStr ''name'') = Inr name"
    and "getitem profile_dict (YStr ''file'') = Inr file"
    and "load_json w file = Inr policy"
    and "respond w (trace s) (ListInstanceProfiles ''/imagebuilder/'') = Inr (Listing profiles)"
  shows "(create_instance_profile w self profile_dict account_id s =
            (Inr (''imagebuilder-'' @ format w name),
             s\<lparr>trace := trace s @
                [(M_create_instance_profile, ListInstanceProfiles ''/imagebuilder/'')]\<rparr>))
         = (\<exists>p \<in> set profiles. contains ''ec2-image-builder-default'' p)"
proof (cases "\<exists>p \<in> set profiles. contains ''ec2-image-builder-default'' p")
  case True
  then have "length (filter (contains ''ec2-image-builder-default'') profiles) > 0"
    using filter_nonempty [of "contains ''ec2-image-builder-default''" profiles] by blast
  with assms True show ?thesis
    unfolding create_instance_profile_def Let_def by (simp add: act_defs)
next
  case False
  then have none: "\<not> length (filter (contains ''ec2-image-builder-default'') profiles) > 0"
    using filter_nonempty [of "contains ''ec2-image-builder-default''" profiles] by blast
  have "trace (snd (create_instance_profile w self profile_dict account_id s)) \<noteq>
        trace s @ [(M_create_instance_profile, ListInstanceProfiles ''/imagebuilder/'')]"
    using assms none unfolding create_instance_profile_def Let_def
    by (auto simp: act_defs split: sum.splits)
  then have "create_instance_profile w self profile_dict account_id s \<noteq>
            (Inr (''imagebuilder-'' @ format w name),
             s\<lparr>trace := trace s @
                [(M_create_instance_profile, ListInstanceProfiles ''/imagebuilder/'')]\<rparr>)"
    by auto
  with False show ?thesis by simp
qed

subsection \<open>The loop of \<open>create_components\<close>\<close>

text \<open>
  On a sequence the method is its loop. The loop over a longer sequence continues the loop
  over a shorter one, so the result for the components up to some position is the state in
  which the next one is resolved; and the loop only ever extends the list of resolved
  components and the calls made.
\<close>

lemma create_components_list:
  "create_components w self platform (YList cs) = resolve_all w self platform cs []"
  by (rule ext) (simp add: create_components_def bind_def lift_def)

lemma resolve_all_append:
  "resolve_all w self platform (xs @ ys) cl s =
     bind (resolve_all w self platform xs cl) (resolve_all w self platform ys) s"
  by (induction xs arbitrary: cl s)
     (auto simp: bind_def return_def split: prod.splits sum.splits)

lemma create_components_snoc:
  assumes "create_components w self platform (YList before) s0 = (Inr cl, s)"
  shows "create_components w self platform (YList (before @ [c])) s0 =
         resolve w self platform cl c s"
  using assms
  by (simp add: create_components_list resolve_all_append)
     (simp add: bind_def return_def split: prod.splits sum.splits)

lemma resolve_extends:
  assumes "resolve w self platform cl c s = (Inr cl', s')"
  shows "\<exists>rest. cl' = cl @ rest"
proof (cases c)
  case (YMap kvs)
  show ?thesis
    using assms unfolding YMap resolve.simps Let_def
    by (auto simp: act_defs clock_def split: sum.splits option.splits if_splits)
qed (use assms in \<open>simp_all add: raise_def\<close>)

lemma resolve_all_extends:
  assumes "resolve_all w self platform cs cl s = (Inr final, s')"
  shows "\<exists>rest later. final = cl @ rest \<and> trace s' = trace s @ later"
proof -
  have "\<exists>rest. final = cl @ rest"
    using assms
  proof (induction cs arbitrary: cl s)
    case Nil
    then show ?case by (simp add: return_def)
  next
    case (Cons c cs)
    from Cons.prems obtain cl1 s1 where 1: "resolve w self platform cl c s = (Inr cl1, s1)"
      and 2: "resolve_all w self platform cs cl1 s1 = (Inr final, s')"
      by (auto simp: bind_def split: sum.splits prod.splits)
    from resolve_extends [OF 1] Cons.IH [OF 2] show ?case by auto
  qed
  moreover have "\<exists>later. trace s' = trace s @ later"
    using within_resolve_all [of w self platform cs cl] assms
    by (auto simp: post_def within_def emits_def dest!: spec [of _ s])
  ultimately show ?thesis by blast
qed

lemma create_components_continues:
  assumes "create_components w self platform (YList (before @ c # after)) s0 = (Inr final, s')"
  shows "\<exists>resolved s1 rest later.
           create_components w self platform (YList (before @ [c])) s0 = (Inr resolved, s1) \<and>
           final = resolved @ rest \<and> trace s' = trace s1 @ later"
proof -
  have "before @ c # after = (before @ [c]) @ after" by simp
  with assms have "bind (resolve_all w self platform (before @ [c]) [])
                     (resolve_all w self platform after) s0 = (Inr final, s')"
    by (simp add: create_components_list resolve_all_append del: append_assoc append.simps)
  then obtain resolved s1
    where 1: "resolve_all w self platform (before @ [c]) [] s0 = (Inr resolved, s1)"
      and 2: "resolve_all w self platform after resolved s1 = (Inr final, s')"
    by (auto simp: bind_def split: sum.splits prod.splits)
  from resolve_all_extends [OF 2] 1 show ?thesis
    by (auto simp: create_components_list)
qed

text \<open>One round of the loop, for a component given by reference and for an inline one.\<close>

lemma resolve_reference:
  assumes "getitem (YMap kvs) (YStr (last_key kvs)) = Inr document"
    and "get document ''arn'' = Inr (YStr identifier)"
  shows
    "let first = (M_create_components, GetComponent (YStr identifier));
         second = (M_create_components, GetComponent (YStr (identifier @ ''/1'')));
         result = resolve w self platform component_list (YMap kvs) s
     in (case respond w (trace s) (GetComponent (YStr identifier)) of
           Inr found \<Rightarrow>
             result =
               (Inr (component_list @ [YMap [(''componentArn'', YStr identifier)]]),
                s\<lparr>trace := trace s @ [first]\<rparr>)
         | Inl e \<Rightarrow>
             e = InvalidParameterValueException \<longrightarrow>
             (case respond w (trace s @ [first]) (GetComponent (YStr (identifier @ ''/1''))) of
                Inr found \<Rightarrow>
                  result =
                    (Inr (component_list @ [YMap [(''componentArn'', YStr (identifier @ ''/1''))]]),
                     s\<lparr>trace := trace s @ [first, second]\<rparr>)
              | Inl e' \<Rightarrow> result = (Inl e', s\<lparr>trace := trace s @ [first, second]\<rparr>)))"
  using assms
  by (auto simp: act_defs Let_def split: sum.splits)

lemma resolve_inline:
  assumes "getitem (YMap kvs) (YStr (last_key kvs)) = Inr document"
    and "get document ''arn'' = Inr YNull"
    and "getitem document (YStr ''description'') = Inr description"
    and "respond w (trace s) (ListComponents (last_key kvs)) = Inr (Listing revisions)"
  shows
    "let name = last_key kvs;
         minor = str_nat (length revisions + 1);
         listed = trace s @ [(M_create_components, ListComponents name)];
         result = resolve w self platform component_list (YMap kvs) s
     in decimal minor = length revisions + 1 \<and>
        (case component_bucket self of
           None \<Rightarrow>
             trace (snd result) =
               listed @
                 [(M_create_components,
                   CreateComponent name (''0.0.'' @ minor) description platform (Data document))]
         | Some bucket \<Rightarrow>
             (let key_name = ''imagebuilder/'' @ name @ ''_'' @ now w listed @ ''.yaml'';
                  uploaded = listed @ [(M_create_components, PutObject bucket key_name document)]
              in (case respond w listed (PutObject bucket key_name document) of
                    Inl e \<Rightarrow> result = (Inl e, s\<lparr>trace := uploaded\<rparr>)
                  | Inr ok \<Rightarrow>
                      trace (snd result) =
                        uploaded @
                          [(M_create_components,
                            CreateComponent name (''0.0.'' @ minor) description platform
                              (Uri (''s3://'' @ bucket @ ''/'' @ key_name)))])))"
  using assms
  by (auto simp: act_defs clock_def Let_def decimal_str_nat split: sum.splits option.splits)

section \<open>The claims\<close>

text \<open>
  C1 (amended). A parsed definition that is a mapping without one of the seven required
  keys makes every run end in an exception. Nothing checks the keys beforehand: the run
  has made remote calls by then, its first call, the caller-identity call, always, and
  possibly calls of every method that \<open>run\<close> calls before the one it passes the key to.
  The method that takes the missing key, and every later one, makes no call.
\<close>

theorem missing_key_fails_after_session_call:
  assumes "load_yaml w (pipeline_def self) = Inr (YMap kvs)"
    and "k \<in> set required_keys" and "k \<notin> fst ` set kvs"
  shows "(\<exists>e. fst (run w self start) = Inl e)
       \<and> (\<exists>rest. trace (snd (run w self start)) = (M_get_session_details, GetCallerIdentity) # rest)
       \<and> (\<forall>ev \<in> set (trace (snd (run w self start))). rank (fst ev) < rank (consumer k))"
proof -
  have "failed k (fst (run w self start)) (snd (run w self start))"
    using failed_run [OF assms] by (simp add: hoare_def start_def)
  then show ?thesis by (auto simp: failed_def began_def isl_def)
qed

text \<open>
  C1 (amended) at a concrete input: without \<open>image-recipe\<close> the run fails, after the
  caller-identity call, and no call comes from \<open>create_image_recipe\<close> or a later method.
\<close>

theorem missing_key_fails_after_session_call_witness:
  "(\<exists>e. fst (run (demo_world no_recipe_def) demo_options start) = Inl e)
   \<and> (\<exists>rest. trace (snd (run (demo_world no_recipe_def) demo_options start)) =
          (M_get_session_details, GetCallerIdentity) # rest)
   \<and> list_all (\<lambda>ev. rank (fst ev) < rank M_create_image_recipe)
        (trace (snd (run (demo_world no_recipe_def) demo_options start)))"
  using missing_key_fails_after_session_call
          [of "demo_world no_recipe_def" demo_options
              "[(''platform'', YStr ''Linux''),
                (''components'', YList [YMap [(''install-agent'', YMap [(''description'', YStr ''agent'')])]]),
                (''instance-profile'', YMap [(''name'', YStr ''web'')]),
                (''infrastructure-configuration'', YMap [(''name'', YStr ''infra'')]),
                (''distribution-configuration'', YMap [(''name'', YStr ''dist'')]),
                (''pipeline-name'', YStr ''pipe'')]"
              "''image-recipe''"]
  by (simp add: demo_world_def no_recipe_def_def required_keys_def consumer_def list_all_iff)

text \<open>
  C1 as stated fails: without \<open>image-recipe\<close> the run raises the \<open>KeyError\<close> only after the
  two session calls and after it has listed and created the component.
\<close>

theorem validation_before_calls_counterexample:
  "fst (run (demo_world no_recipe_def) demo_options start) = Inl (KeyError (YStr ''image-recipe''))
   \<and> trace (snd (run (demo_world no_recipe_def) demo_options start)) =
       [(M_get_session_details, GetCallerIdentity),
        (M_get_session_details, ListAccountAliases),
        (M_create_components, ListComponents ''install-agent''),
        (M_create_components,
         CreateComponent ''install-agent'' ''0.0.1'' (YStr ''agent'') (YStr ''Linux'')
           (Data (YMap [(''description'', YStr ''agent'')])))]"
  by code_simp

text \<open>
  C2 (amended). In every run, whatever the services answer, the calls appear in the order
  of the methods in \<open>run\<close>: session details, teardown, components, image recipe, instance
  profile, infrastructure configuration, distribution configuration, pipeline, start.
  No call of a method follows a call of a later one.
\<close>

theorem run_stages_forward: "ordered (trace (snd (run w self start)))"
  using forward_run [of w self]
  by (simp add: forward_def hoare_def upto_def ordered_def start_def)

text \<open>
  C2 as stated fails: the specification puts the instance profile before the image recipe,
  and in the concrete world the two recipe calls precede the six profile calls.
\<close>

theorem run_spec_order_counterexample:
  "map fst (trace (snd (run (demo_world demo_def) demo_options start))) =
     [M_get_session_details, M_get_session_details, M_create_components, M_create_components,
      M_create_image_recipe, M_create_image_recipe,
      M_create_instance_profile, M_create_instance_profile, M_create_instance_profile,
      M_create_instance_profile, M_create_instance_profile, M_create_instance_profile,
      M_create_infrastructure_config, M_create_infrastructure_config,
      M_create_distribution_configuration, M_create_distribution_configuration,
      M_create_image_pipeline, M_create_image_pipeline]
   \<and> \<not> sorted (map (\<lambda>e. spec_rank (fst e))
                (trace (snd (run (demo_world demo_def) demo_options start))))"
  by code_simp

text \<open>
  C3, the code at two inputs. The resource name is \<open>imagebuilder-web\<close> in both. Where the
  profile \<open>imagebuilder-web\<close> is listed, the method still makes the five creation calls;
  where only a profile named \<open>ec2-image-builder-default\<close> is listed, it returns the name
  after the listing, as if the profile existed. The branch is decided by the fixed name
  \<open>ec2-image-builder-default\<close>, not by the derived name (lemma
  \<open>reuse_decided_by_fixed_name\<close> says so for every input).
\<close>

theorem existence_check_ignores_derived_name:
  "create_instance_profile existing_profile_world demo_options
     (YMap [(''name'', YStr ''web''), (''file'', YStr ''policy.json'')]) ''123456789012'' start =
     (Inr ''imagebuilder-web'',
      start\<lparr>trace :=
        [(M_create_instance_profile, ListInstanceProfiles ''/imagebuilder/''),
         (M_create_instance_profile, CreateInstanceProfile ''imagebuilder-web'' ''/imagebuilder/''),
         (M_create_instance_profile, CreateRole ''/imagebuilder/'' ''imagebuilder-web''),
         (M_create_instance_profile, CreatePolicy ''imagebuilder-web'' ''/imagebuilder/'' ''{}''),
         (M_create_instance_profile, AttachRolePolicy ''imagebuilder-web'' ''arn:policy''),
         (M_create_instance_profile,
          AddRoleToInstanceProfile ''imagebuilder-web'' ''imagebuilder-web'')]\<rparr>)
   \<and> create_instance_profile (busy_world demo_def) demo_options
     (YMap [(''name'', YStr ''web''), (''file'', YStr ''policy.json'')]) ''123456789012'' start =
     (Inr ''imagebuilder-web'',
      start\<lparr>trace := [(M_create_instance_profile, ListInstanceProfiles ''/imagebuilder/'')]\<rparr>)"
  by code_simp




text \<open>
  C5. A component given by reference, whose identifier is a string, at any position of the
  component list of \<open>create_components\<close>, the components before it being resolved (to
  \<open>component_list\<close>, leaving the state \<open>s\<close>). When the lookup call accepts the identifier,
  the method has resolved the component to that identifier, unchanged, after that one
  call. When the lookup rejects it as a malformed parameter, the lookup is made once more,
  with \<open>/1\<close> appended: if that call succeeds the component is resolved to the identifier
  with \<open>/1\<close> appended, and if it fails its exception ends the method. Either way the retry
  is the second and last lookup call. Whatever components follow, when the method returns
  its result begins with the list resolved so far and its calls begin with the calls made
  so far.
\<close>

theorem reference_resolved_with_one_retry:
  assumes "create_components w self platform (YList before) s0 = (Inr component_list, s)"
    and "getitem (YMap kvs) (YStr (last_key kvs)) = Inr document"
    and "get document ''arn'' = Inr (YStr identifier)"
  shows
    "let first = (M_create_components, GetComponent (YStr identifier));
         second = (M_create_components, GetComponent (YStr (identifier @ ''/1'')));
         result = create_components w self platform (YList (before @ [YMap kvs])) s0
     in (case respond w (trace s) (GetComponent (YStr identifier)) of
           Inr found \<Rightarrow>
             result =
               (Inr (component_list @ [YMap [(''componentArn'', YStr identifier)]]),
                s\<lparr>trace := trace s @ [first]\<rparr>)
         | Inl e \<Rightarrow>
             e = InvalidParameterValueException \<longrightarrow>
             (case respond w (trace s @ [first]) (GetComponent (YStr (identifier @ ''/1''))) of
                Inr found \<Rightarrow>
                  result =
                    (Inr (component_list @ [YMap [(''componentArn'', YStr (identifier @ ''/1''))]]),
                     s\<lparr>trace := trace s @ [first, second]\<rparr>)
              | Inl e' \<Rightarrow> result = (Inl e', s\<lparr>trace := trace s @ [first, second]\<rparr>)))
        \<and> (\<forall>after final s'.
              create_components w self platform (YList (before @ YMap kvs # after)) s0 =
                (Inr final, s') \<longrightarrow>
              (\<exists>resolved s1 rest later.
                 result = (Inr resolved, s1) \<and> final = resolved @ rest \<and>
                 trace s' = trace s1 @ later))"
  unfolding Let_def
  apply (rule conjI)
  subgoal
    unfolding create_components_snoc [OF assms(1)]
    by (rule resolve_reference [OF assms(2,3), unfolded Let_def])
  subgoal
    using create_components_continues by blast
  done

text \<open>
  C5 at concrete inputs: the reference after an inline component, accepted at once in one
  account and on the retry in the other, and followed by a third component.
\<close>

theorem reference_resolved_with_one_retry_witness:
  "create_components (demo_world demo_def) demo_options (YStr ''Linux'')
     (YList [agent_component, linux_component]) start =
     (Inr [YMap [(''componentArn'', YStr ''arn:component'')],
           YMap [(''componentArn'', YStr quirk_arn)]],
      start\<lparr>trace :=
        [(M_create_components, ListComponents ''install-agent''),
         (M_create_components,
          CreateComponent ''install-agent'' ''0.0.1'' (YStr ''agent'') (YStr ''Linux'')
            (Data (YMap [(''description'', YStr ''agent'')]))),
         (M_create_components, GetComponent (YStr quirk_arn))]\<rparr>)
   \<and> create_components (busy_world demo_def) demo_options (YStr ''Linux'')
     (YList [agent_component, linux_component]) start =
     (Inr [YMap [(''componentArn'', YStr ''arn:component/3'')],
           YMap [(''componentArn'', YStr (quirk_arn @ ''/1''))]],
      start\<lparr>trace :=
        [(M_create_components, ListComponents ''install-agent''),
         (M_create_components,
          CreateComponent ''install-agent'' ''0.0.3'' (YStr ''agent'') (YStr ''Linux'')
            (Data (YMap [(''description'', YStr ''agent'')]))),
         (M_create_components, GetComponent (YStr quirk_arn)),
         (M_create_components, GetComponent (YStr (quirk_arn @ ''/1'')))]\<rparr>)
   \<and> (\<exists>resolved s1 rest later.
        create_components (busy_world demo_def) demo_options (YStr ''Linux'')
          (YList [agent_component, linux_component]) start = (Inr resolved, s1) \<and>
        [YMap [(''componentArn'', YStr ''arn:component/3'')],
         YMap [(''componentArn'', YStr (quirk_arn @ ''/1''))],
         YMap [(''componentArn'', YStr ''arn:component/3'')]] = resolved @ rest \<and>
        [(M_create_components, ListComponents ''install-agent''),
         (M_create_components,
          CreateComponent ''install-agent'' ''0.0.3'' (YStr ''agent'') (YStr ''Linux'')
            (Data (YMap [(''description'', YStr ''agent'')]))),
         (M_create_components, GetComponent (YStr quirk_arn)),
         (M_create_components, GetComponent (YStr (quirk_arn @ ''/1''))),
         (M_create_components, ListComponents ''install-agent''),
         (M_create_components,
          CreateComponent ''install-agent'' ''0.0.3'' (YStr ''agent'') (YStr ''Linux'')
            (Data (YMap [(''description'', YStr ''agent'')])))] = trace s1 @ later)"
proof -
  have demo: "create_components (demo_world demo_def) demo_options (YStr ''Linux'')
       (YList [agent_component]) start =
     (Inr [YMap [(''componentArn'', YStr ''arn:component'')]],
      start\<lparr>trace :=
        [(M_create_components, ListComponents ''install-agent''),
         (M_create_components,
          CreateComponent ''install-agent'' ''0.0.1'' (YStr ''agent'') (YStr ''Linux'')
            (Data (YMap [(''description'', YStr ''agent'')])))]\<rparr>)"
    by code_simp
  have busy: "create_components (busy_world demo_def) demo_options (YStr ''Linux'')
       (YList [agent_component]) start =
     (Inr [YMap [(''componentArn'', YStr ''arn:component/3'')]],
      start\<lparr>trace :=
        [(M_create_components, ListComponents ''install-agent''),
         (M_create_components,
          CreateComponent ''install-agent'' ''0.0.3'' (YStr ''agent'') (YStr ''Linux'')
            (Data (YMap [(''description'', YStr ''agent'')])))]\<rparr>)"
    by code_simp
  have three: "create_components (busy_world demo_def) demo_options (YStr ''Linux'')
       (YList ([agent_component] @
          YMap [(''update-linux'', YMap [(''arn'', YStr quirk_arn)])] # [agent_component])) start =
     (Inr [YMap [(''componentArn'', YStr ''arn:component/3'')],
         YMap [(''componentArn'', YStr (quirk_arn @ ''/1''))],
         YMap [(''componentArn'', YStr ''arn:component/3'')]],
      start\<lparr>trace :=
        [(M_create_components, ListComponents ''install-agent''),
         (M_create_components,
          CreateComponent ''install-agent'' ''0.0.3'' (YStr ''agent'') (YStr ''Linux'')
            (Data (YMap [(''description'', YStr ''agent'')]))),
         (M_create_components, GetComponent (YStr quirk_arn)),
         (M_create_components, GetComponent (YStr (quirk_arn @ ''/1''))),
         (M_create_components, ListComponents ''install-agent''),
         (M_create_components,
          CreateComponent ''install-agent'' ''0.0.3'' (YStr ''agent'') (YStr ''Linux'')
            (Data (YMap [(''description'', YStr ''agent'')])))]\<rparr>)"
    by code_simp
  note in_demo = reference_resolved_with_one_retry [OF demo, of "[(''update-linux'', YMap [(''arn'', YStr quirk_arn)])]"
      "YMap [(''arn'', YStr quirk_arn)]" quirk_arn, unfolded Let_def, THEN conjunct1]
  note in_busy = reference_resolved_with_one_retry [OF busy, of "[(''update-linux'', YMap [(''arn'', YStr quirk_arn)])]"
      "YMap [(''arn'', YStr quirk_arn)]" quirk_arn, unfolded Let_def]
  from in_demo in_busy [THEN conjunct1] in_busy [THEN conjunct2, rule_format, OF _ _ three]
  show ?thesis
    by (simp add: busy_world_def demo_world_def start_def last_key_def quirk_arn_def
          linux_component_def)
qed

text \<open>
  C6. An inline component (no \<open>arn\<close>, a description) at any position of the component
  list of \<open>create_components\<close>, the components before it being resolved (to
  \<open>component_list\<close>, leaving the state \<open>s\<close>), with \<open>revisions\<close> the listing of the components
  of that name. The version sent is \<open>0.0.\<close> followed by the decimal numeral of the number of
  revisions plus one. Without a staging bucket the create call follows the listing and
  carries the document as data. With a staging bucket the document is uploaded first: if
  the upload fails no component is created, otherwise the create call carries the URI of
  the uploaded object and no data. Whatever components follow, when the method returns its
  result begins with the list resolved so far and its calls begin with the calls made so
  far.
\<close>

theorem inline_component_version_and_body:
  assumes "create_components w self platform (YList before) s0 = (Inr component_list, s)"
    and "getitem (YMap kvs) (YStr (last_key kvs)) = Inr document"
    and "get document ''arn'' = Inr YNull"
    and "getitem document (YStr ''description'') = Inr description"
    and "respond w (trace s) (ListComponents (last_key kvs)) = Inr (Listing revisions)"
  shows
    "let name = last_key kvs;
         minor = str_nat (length revisions + 1);
         listed = trace s @ [(M_create_components, ListComponents name)];
         result = create_components w self platform (YList (before @ [YMap kvs])) s0
     in decimal minor = length revisions + 1 \<and>
        (case component_bucket self of
           None \<Rightarrow>
             trace (snd result) =
               listed @
                 [(M_create_components,
                   CreateComponent name (''0.0.'' @ minor) description platform (Data document))]
         | Some bucket \<Rightarrow>
             (let key_name = ''imagebuilder/'' @ name @ ''_'' @ now w listed @ ''.yaml'';
                  uploaded = listed @ [(M_create_components, PutObject bucket key_name document)]
              in (case respond w listed (PutObject bucket key_name document) of
                    Inl e \<Rightarrow> result = (Inl e, s\<lparr>trace := uploaded\<rparr>)
                  | Inr ok \<Rightarrow>
                      trace (snd result) =
                        uploaded @
                          [(M_create_components,
                            CreateComponent name (''0.0.'' @ minor) description platform
                              (Uri (''s3://'' @ bucket @ ''/'' @ key_name)))]))) \<and>
        (\<forall>after final s'.
           create_components w self platform (YList (before @ YMap kvs # after)) s0 =
             (Inr final, s') \<longrightarrow>
           (\<exists>resolved s1 rest later.
              result = (Inr resolved, s1) \<and> final = resolved @ rest \<and>
              trace s' = trace s1 @ later))"
  unfolding Let_def
  apply (intro conjI)
  subgoal
    by (rule resolve_inline [OF assms(2-5), unfolded Let_def, THEN conjunct1])
  subgoal
    unfolding create_components_snoc [OF assms(1)]
    by (rule resolve_inline [OF assms(2-5), unfolded Let_def, THEN conjunct2])
  subgoal
    using create_components_continues by blast
  done

text \<open>
  C6 at concrete inputs: the inline component after a reference, without and with a
  staging bucket, and followed by a third component.
\<close>

theorem inline_component_version_and_body_witness:
  "trace (snd (create_components (demo_world demo_def) demo_options (YStr ''Linux'')
      (YList [linux_component, agent_component]) start)) =
     [(M_create_components, GetComponent (YStr quirk_arn)),
      (M_create_components, ListComponents ''install-agent''),
      (M_create_components,
       CreateComponent ''install-agent'' ''0.0.1'' (YStr ''agent'') (YStr ''Linux'')
         (Data (YMap [(''description'', YStr ''agent'')])))]
   \<and> trace (snd (create_components (busy_world demo_def) busy_options (YStr ''Linux'')
      (YList [linux_component, agent_component]) start)) =
     [(M_create_components, GetComponent (YStr quirk_arn)),
      (M_create_components, GetComponent (YStr (quirk_arn @ ''/1''))),
      (M_create_components, ListComponents ''install-agent''),
      (M_create_components,
       PutObject ''staging'' ''imagebuilder/install-agent_12:00:00.yaml''
         (YMap [(''description'', YStr ''agent'')])),
      (M_create_components,
       CreateComponent ''install-agent'' ''0.0.3'' (YStr ''agent'') (YStr ''Linux'')
         (Uri ''s3://staging/imagebuilder/install-agent_12:00:00.yaml''))]
   \<and> (\<exists>resolved s1 rest later.
        create_components (busy_world demo_def) busy_options (YStr ''Linux'')
          (YList [linux_component, agent_component]) start = (Inr resolved, s1) \<and>
        [YMap [(''componentArn'', YStr (quirk_arn @ ''/1''))],
         YMap [(''componentArn'', YStr ''arn:component/3'')],
         YMap [(''componentArn'', YStr (quirk_arn @ ''/1''))]] = resolved @ rest \<and>
        [(M_create_components, GetComponent (YStr quirk_arn)),
         (M_create_components, GetComponent (YStr (quirk_arn @ ''/1''))),
         (M_create_components, ListComponents ''install-agent''),
         (M_create_components,
          PutObject ''staging'' ''imagebuilder/install-agent_12:00:00.yaml''
            (YMap [(''description'', YStr ''agent'')])),
         (M_create_components,
          CreateComponent ''install-agent'' ''0.0.3'' (YStr ''agent'') (YStr ''Linux'')
            (Uri ''s3://staging/imagebuilder/install-agent_12:00:00.yaml'')),
         (M_create_components, GetComponent (YStr quirk_arn)),
         (M_create_components, GetComponent (YStr (quirk_arn @ ''/1'')))] = trace s1 @ later)"
proof -
  have demo: "create_components (demo_world demo_def) demo_options (YStr ''Linux'')
       (YList [linux_component]) start =
     (Inr [YMap [(''componentArn'', YStr quirk_arn)]],
      start\<lparr>trace := [(M_create_components, GetComponent (YStr quirk_arn))]\<rparr>)"
    by code_simp
  have busy: "create_components (busy_world demo_def) busy_options (YStr ''Linux'')
       (YList [linux_component]) start =
     (Inr [YMap [(''componentArn'', YStr (quirk_arn @ ''/1''))]],
      start\<lparr>trace :=
        [(M_create_components, GetComponent (YStr quirk_arn)),
         (M_create_components, GetComponent (YStr (quirk_arn @ ''/1'')))]\<rparr>)"
    by code_simp
  have three: "create_components (busy_world demo_def) busy_options (YStr ''Linux'')
       (YList ([linux_component] @
          YMap [(''install-agent'', YMap [(''description'', YStr ''agent'')])] #
          [linux_component])) start =
     (Inr [YMap [(''componentArn'', YStr (quirk_arn @ ''/1''))],
         YMap [(''componentArn'', YStr ''arn:component/3'')],
         YMap [(''componentArn'', YStr (quirk_arn @ ''/1''))]],
      start\<lparr>trace :=
        [(M_create_components, GetComponent (YStr quirk_arn)),
         (M_create_components, GetComponent (YStr (quirk_arn @ ''/1''))),
         (M_create_components, ListComponents ''install-agent''),
         (M_create_components,
          PutObject ''staging'' ''imagebuilder/install-agent_12:00:00.yaml''
            (YMap [(''description'', YStr ''agent'')])),
         (M_create_components,
          CreateComponent ''install-agent'' ''0.0.3'' (YStr ''agent'') (YStr ''Linux'')
            (Uri ''s3://staging/imagebuilder/install-agent_12:00:00.yaml'')),
         (M_create_components, GetComponent (YStr quirk_arn)),
         (M_create_components, GetComponent (YStr (quirk_arn @ ''/1'')))]\<rparr>)"
    by code_simp
  note in_demo = inline_component_version_and_body [OF demo,
      of "[(''install-agent'', YMap [(''description'', YStr ''agent'')])]"
         "YMap [(''description'', YStr ''agent'')]" "YStr ''agent''" "[]",
      unfolded Let_def, THEN conjunct2, THEN conjunct1]
  note in_busy = inline_component_version_and_body [OF busy,
      of "[(''install-agent'', YMap [(''description'', YStr ''agent'')])]"
         "YMap [(''description'', YStr ''agent'')]" "YStr ''agent''"
         "[''arn:component/1'', ''arn:component/2'']",
      unfolded Let_def, THEN conjunct2]
  from in_demo in_busy [THEN conjunct1] in_busy [THEN conjunct2, rule_format, OF _ _ _ _ three]
  show ?thesis
    by (simp add: busy_world_def demo_world_def busy_options_def demo_options_def start_def
          last_key_def str_nat_1 str_nat_3 agent_component_def)
qed

text \<open>
  C7. An infrastructure configuration whose name is listed is reused: the method returns
  the first listed identifier and makes no other call than the listing. A name that is not
  listed gives exactly one create call after the listing, and the identifier that call
  returns is the result. The same holds, separately, for a distribution configuration.
\<close>

theorem configurations_reused_or_created_once:
  "(getitem infrastructure_def (YStr ''name'') = Inr iname \<and>
    respond w (trace s) (ListInfrastructureConfigurations iname) = Inr (Listing isummaries) \<longrightarrow>
      (\<forall>existing others. isummaries = existing # others \<longrightarrow>
         create_infrastructure_config w self profile infrastructure_def s =
           (Inr existing,
            s\<lparr>trace := trace s @
               [(M_create_infrastructure_config, ListInfrastructureConfigurations iname)]\<rparr>))
      \<and> (isummaries = [] \<longrightarrow>
         (\<exists>def'. setitem infrastructure_def ''instanceProfileName'' profile = Inr def' \<and>
            trace (snd (create_infrastructure_config w self profile infrastructure_def s)) =
              trace s @
                [(M_create_infrastructure_config, ListInfrastructureConfigurations iname),
                 (M_create_infrastructure_config, CreateInfrastructureConfiguration def')] \<and>
            (\<forall>created.
               respond w
                 (trace s @ [(M_create_infrastructure_config, ListInfrastructureConfigurations iname)])
                 (CreateInfrastructureConfiguration def') = Inr (Arn created) \<longrightarrow>
               fst (create_infrastructure_config w self profile infrastructure_def s) = Inr created))))
   \<and> (getitem distribution_def (YStr ''name'') = Inr dname \<and>
      respond w (trace t) (ListDistributionConfigurations dname) = Inr (Listing dsummaries) \<longrightarrow>
      (\<forall>existing others. dsummaries = existing # others \<longrightarrow>
         create_distribution_configuration w distribution_def t =
           (Inr existing,
            t\<lparr>trace := trace t @
               [(M_create_distribution_configuration, ListDistributionConfigurations dname)]\<rparr>))
      \<and> (dsummaries = [] \<longrightarrow>
            trace (snd (create_distribution_configuration w distribution_def t)) =
              trace t @
                [(M_create_distribution_configuration, ListDistributionConfigurations dname),
                 (M_create_distribution_configuration, CreateDistributionConfiguration distribution_def)] \<and>
            (\<forall>created.
               respond w
                 (trace t @ [(M_create_distribution_configuration, ListDistributionConfigurations dname)])
                 (CreateDistributionConfiguration distribution_def) = Inr (Arn created) \<longrightarrow>
               fst (create_distribution_configuration w distribution_def t) = Inr created)))"
proof (intro conjI allI impI; (elim conjE)?)
  fix existing others
  assume "getitem infrastructure_def (YStr ''name'') = Inr iname"
    and "respond w (trace s) (ListInfrastructureConfigurations iname) = Inr (Listing isummaries)"
    and "isummaries = existing # others"
  then show "create_infrastructure_config w self profile infrastructure_def s =
           (Inr existing,
            s\<lparr>trace := trace s @
               [(M_create_infrastructure_config, ListInfrastructureConfigurations iname)]\<rparr>)"
    by (simp add: create_infrastructure_config_def act_defs)
next
  assume name: "getitem infrastructure_def (YStr ''name'') = Inr iname"
    and listed: "respond w (trace s) (ListInfrastructureConfigurations iname) = Inr (Listing isummaries)"
    and empty: "isummaries = []"
  from name obtain kvs where d: "infrastructure_def = YMap kvs"
    by (cases infrastructure_def) auto
  show "\<exists>def'. setitem infrastructure_def ''instanceProfileName'' profile = Inr def' \<and>
            trace (snd (create_infrastructure_config w self profile infrastructure_def s)) =
              trace s @
                [(M_create_infrastructure_config, ListInfrastructureConfigurations iname),
                 (M_create_infrastructure_config, CreateInfrastructureConfiguration def')] \<and>
            (\<forall>created.
               respond w
                 (trace s @ [(M_create_infrastructure_config, ListInfrastructureConfigurations iname)])
                 (CreateInfrastructureConfiguration def') = Inr (Arn created) \<longrightarrow>
               fst (create_infrastructure_config w self profile infrastructure_def s) = Inr created)"
    using name listed empty unfolding d
    by (auto simp: create_infrastructure_config_def act_defs store_def split: sum.splits)
next
  fix existing others
  assume "getitem distribution_def (YStr ''name'') = Inr dname"
    and "respond w (trace t) (ListDistributionConfigurations dname) = Inr (Listing dsummaries)"
    and "dsummaries = existing # others"
  then show "create_distribution_configuration w distribution_def t =
           (Inr existing,
            t\<lparr>trace := trace t @
               [(M_create_distribution_configuration, ListDistributionConfigurations dname)]\<rparr>)"
    by (simp add: create_distribution_configuration_def act_defs)
next
  assume "getitem distribution_def (YStr ''name'') = Inr dname"
    and "respond w (trace t) (ListDistributionConfigurations dname) = Inr (Listing dsummaries)"
    and "dsummaries = []"
  then show "trace (snd (create_distribution_configuration w distribution_def t)) =
              trace t @
                [(M_create_distribution_configuration, ListDistributionConfigurations dname),
                 (M_create_distribution_configuration, CreateDistributionConfiguration distribution_def)]"
    by (auto simp: create_distribution_configuration_def act_defs split: sum.splits)
next
  fix created
  assume "getitem distribution_def (YStr ''name'') = Inr dname"
    and "respond w (trace t) (ListDistributionConfigurations dname) = Inr (Listing dsummaries)"
    and "dsummaries = []"
    and "respond w
                 (trace t @ [(M_create_distribution_configuration, ListDistributionConfigurations dname)])
                 (CreateDistributionConfiguration distribution_def) = Inr (Arn created)"
  then show "fst (create_distribution_configuration w distribution_def t) = Inr created"
    by (auto simp: create_distribution_configuration_def act_defs split: sum.splits)
qed

text \<open>
  C7 at concrete inputs: both configurations in the account where they exist and in the
  account where they do not.
\<close>

theorem configurations_reused_or_created_once_witness:
  "create_infrastructure_config (busy_world demo_def) demo_options (YStr ''web'') (YMap [(''name'', YStr ''infra'')]) start =
     (Inr ''arn:infra/existing'',
      start\<lparr>trace := [(M_create_infrastructure_config, ListInfrastructureConfigurations (YStr ''infra''))]\<rparr>)
   \<and> create_distribution_configuration (busy_world demo_def) (YMap [(''name'', YStr ''dist'')]) start =
     (Inr ''arn:dist/existing'',
      start\<lparr>trace := [(M_create_distribution_configuration, ListDistributionConfigurations (YStr ''dist''))]\<rparr>)
   \<and> trace (snd (create_infrastructure_config (demo_world demo_def) demo_options (YStr ''web'') (YMap [(''name'', YStr ''infra'')]) start)) =
       [(M_create_infrastructure_config, ListInfrastructureConfigurations (YStr ''infra'')),
        (M_create_infrastructure_config,
         CreateInfrastructureConfiguration
           (YMap [(''name'', YStr ''infra''), (''instanceProfileName'', YStr ''web'')]))]
   \<and> fst (create_infrastructure_config (demo_world demo_def) demo_options (YStr ''web'') (YMap [(''name'', YStr ''infra'')]) start) =
       Inr ''arn:infra''
   \<and> trace (snd (create_distribution_configuration (demo_world demo_def) (YMap [(''name'', YStr ''dist'')]) start)) =
       [(M_create_distribution_configuration, ListDistributionConfigurations (YStr ''dist'')),
        (M_create_distribution_configuration, CreateDistributionConfiguration (YMap [(''name'', YStr ''dist'')]))]
   \<and> fst (create_distribution_configuration (demo_world demo_def) (YMap [(''name'', YStr ''dist'')]) start) =
       Inr ''arn:dist''"
  using configurations_reused_or_created_once
          [where infrastructure_def = "YMap [(''name'', YStr ''infra'')]" and iname = "YStr ''infra''"
             and w = "busy_world demo_def" and s = start and isummaries = "[''arn:infra/existing'']"
             and distribution_def = "YMap [(''name'', YStr ''dist'')]" and dname = "YStr ''dist''"
             and t = start and dsummaries = "[''arn:dist/existing'']" and profile = "YStr ''web''"
             and self = demo_options]
        configurations_reused_or_created_once
          [where infrastructure_def = "YMap [(''name'', YStr ''infra'')]" and iname = "YStr ''infra''"
             and w = "demo_world demo_def" and s = start and isummaries = "[]"
             and distribution_def = "YMap [(''name'', YStr ''dist'')]" and dname = "YStr ''dist''"
             and t = start and dsummaries = "[]" and profile = "YStr ''web''"
             and self = demo_options]
  by (simp add: busy_world_def demo_world_def start_def)

text \<open>
  C8. A pipeline whose name is listed is deleted before anything is created. If the delete
  call fails the method fails after it, with no create call. If it succeeds the create
  call follows, and the result is what the create call returns: the identifier of the
  listed pipeline is never returned for reuse.
\<close>

theorem pipeline_deleted_before_created:
  assumes "respond w (trace s) (ListImagePipelines name) = Inr (Listing (existing # others))"
  shows
    "let listed = trace s @ [(M_create_image_pipeline, ListImagePipelines name)];
         deleted = listed @ [(M_create_image_pipeline, DeleteImagePipeline existing)];
         create = CreateImagePipeline name recipe infrastructure distribution;
         created = deleted @ [(M_create_image_pipeline, create)];
         result = create_image_pipeline w name recipe infrastructure distribution s
     in (case respond w listed (DeleteImagePipeline existing) of
           Inl e \<Rightarrow> result = (Inl e, s\<lparr>trace := deleted\<rparr>)
         | Inr ok \<Rightarrow>
             result =
               (case respond w deleted create of
                  Inl e \<Rightarrow> Inl e
                | Inr response \<Rightarrow> arn ''imagePipelineArn'' response,
                s\<lparr>trace := created\<rparr>))"
  using assms
  by (auto simp: create_image_pipeline_def act_defs Let_def split: sum.splits)

text \<open>C8 at a concrete input.\<close>

theorem pipeline_deleted_before_created_witness:
  "create_image_pipeline (busy_world demo_def) (YStr ''pipe'') ''r'' ''i'' ''d'' start =
     (Inr ''arn:pipeline/new'',
      start\<lparr>trace :=
         [(M_create_image_pipeline, ListImagePipelines (YStr ''pipe'')),
          (M_create_image_pipeline, DeleteImagePipeline ''arn:pipeline/existing''),
          (M_create_image_pipeline, CreateImagePipeline (YStr ''pipe'') ''r'' ''i'' ''d'')]\<rparr>)"
  using pipeline_deleted_before_created
          [of "busy_world demo_def" start "YStr ''pipe''" "''arn:pipeline/existing''" "[]"
              "''r''" "''i''" "''d''"]
  by (simp add: busy_world_def start_def Let_def)




text \<open>
  C10. When the \<open>instance-profile\<close> section has no \<open>file\<close> entry (or a null one), no call of
  the run is one of the identity-service operations of \<open>create_instance_profile\<close> (list
  instance profiles, create or list or delete a policy version, create a profile, a role
  or a policy, attach a policy, add a role), and every create call for the infrastructure
  configuration carries the definition's mapping with \<open>instanceProfileName\<close> set to the
  \<open>name\<close> entry of the section, as it is.
\<close>

theorem no_policy_file_no_profile_calls:
  assumes "load_yaml w (pipeline_def self) = Inr parsed"
    and "getitem parsed (YStr ''instance-profile'') = Inr profile_dict"
    and "get profile_dict ''file'' = Inr YNull"
    and "get profile_dict ''name'' = Inr name"
  shows "\<forall>e \<in> set (trace (snd (run w self start))).
           \<not> calls M_create_instance_profile (snd e) \<and>
           (\<forall>d'. snd e = CreateInfrastructureConfiguration d' \<longrightarrow>
              (\<exists>d. getitem parsed (YStr ''infrastructure-configuration'') = Inr d \<and>
                   setitem d ''instanceProfileName'' name = Inr d'))"
proof -
  have "unprofiled parsed name start"
    by (simp add: unprofiled_def start_def)
  with clean_run [OF assms] have "unprofiled parsed name (snd (run w self start))"
    by (simp add: hoare_def clean_def)
  then show ?thesis by (simp add: unprofiled_def)
qed

text \<open>C10 at a concrete input.\<close>

theorem no_policy_file_no_profile_calls_witness:
  "list_all (\<lambda>e. \<not> calls M_create_instance_profile (snd e))
     (trace (snd (run (demo_world named_profile_def) demo_options start)))
   \<and> (M_create_infrastructure_config,
       CreateInfrastructureConfiguration
         (YMap [(''name'', YStr ''infra''), (''instanceProfileName'', YStr ''web'')]))
      \<in> set (trace (snd (run (demo_world named_profile_def) demo_options start)))
   \<and> (\<exists>d. getitem named_profile_def (YStr ''infrastructure-configuration'') = Inr d \<and>
          setitem d ''instanceProfileName'' (YStr ''web'') =
            Inr (YMap [(''name'', YStr ''infra''), (''instanceProfileName'', YStr ''web'')]))"
proof -
  have h1: "load_yaml (demo_world named_profile_def) (pipeline_def demo_options) = Inr named_profile_def"
    by (simp add: demo_world_def)
  have h2: "getitem named_profile_def (YStr ''instance-profile'') = Inr (YMap [(''name'', YStr ''web'')])"
    by (simp add: named_profile_def_def)
  have h3: "get (YMap [(''name'', YStr ''web'')]) ''file'' = Inr YNull"
    by simp
  have h4: "get (YMap [(''name'', YStr ''web'')]) ''name'' = Inr (YStr ''web'')"
    by simp
  note all = no_policy_file_no_profile_calls [OF h1 h2 h3 h4]
  from all have "list_all (\<lambda>e. \<not> calls M_create_instance_profile (snd e))
     (trace (snd (run (demo_world named_profile_def) demo_options start)))"
    by (simp add: list_all_iff)
  moreover note named_profile_run_creates_infrastructure
  moreover from all [rule_format, OF named_profile_run_creates_infrastructure]
  have "\<exists>d. getitem named_profile_def (YStr ''infrastructure-configuration'') = Inr d \<and>
          setitem d ''instanceProfileName'' (YStr ''web'') =
            Inr (YMap [(''name'', YStr ''infra''), (''instanceProfileName'', YStr ''web'')])"
    by simp
  ultimately show ?thesis by blast
qed

end
